theory Spec2Isabelle
  imports Complex_Main
begin

section \<open>Strings\<close>

text \<open>
  A JavaScript string is modelled as a \<^typ>\<open>string\<close> whose characters are code units
  below 256 (Latin-1). \<open>String.prototype.trim\<close> and the regular expression class
  \<open>\s\<close> remove the same white space: TAB, LF, VT, FF, CR, SPACE and NBSP in this range.
\<close>

definition isWhiteSpace :: "char \<Rightarrow> bool" where
  "isWhiteSpace c = (of_char c \<in> {9, 10, 11, 12, 13, 32, 160 :: nat})"

text \<open>
  \<open>toLowerCase\<close>: the upper-case letters below 256 are \<open>A\<close>..\<open>Z\<close> and
  \<open>0xC0\<close>..\<open>0xDE\<close> without \<open>0xD7\<close>; the lower-case letter is 32 above, which is
  setting bit 5 (clear in every upper-case code unit).
\<close>

definition isUpperCase :: "char \<Rightarrow> bool" where
  "isUpperCase c = (let n = of_char c :: nat in
     (65 \<le> n \<and> n \<le> 90) \<or> (192 \<le> n \<and> n \<le> 222 \<and> n \<noteq> 215))"

fun toLowerChar :: "char \<Rightarrow> char" where
  "toLowerChar (Char b0 b1 b2 b3 b4 b5 b6 b7) =
     (if isUpperCase (Char b0 b1 b2 b3 b4 b5 b6 b7) then Char b0 b1 b2 b3 b4 True b6 b7
      else Char b0 b1 b2 b3 b4 b5 b6 b7)"

definition toLowerCase :: "string \<Rightarrow> string" where
  "toLowerCase s = map toLowerChar s"

definition trim :: "string \<Rightarrow> string" where
  "trim s = rev (dropWhile isWhiteSpace (rev (dropWhile isWhiteSpace s)))"

fun startsWith :: "string \<Rightarrow> string \<Rightarrow> bool" where
  "startsWith s [] = True"
| "startsWith [] (c # cs) = False"
| "startsWith (x # xs) (c # cs) = (x = c \<and> startsWith xs cs)"

text \<open>\<open>s.includes(t)\<close>: \<open>t\<close> occurs in \<open>s\<close> as a contiguous run.\<close>

fun includes_str :: "string \<Rightarrow> string \<Rightarrow> bool" where
  "includes_str [] t = startsWith [] t"
| "includes_str (x # xs) t = (startsWith (x # xs) t \<or> includes_str xs t)"

text \<open>
  \<open>s.split(sep)\<close> for a separator of one character: the pieces between the separators,
  empty pieces included; the empty string gives one empty piece.
\<close>

fun split_char :: "char \<Rightarrow> string \<Rightarrow> string list" where
  "split_char sep [] = [[]]"
| "split_char sep (x # xs) =
     (if x = sep then [] # split_char sep xs
      else (case split_char sep xs of [] \<Rightarrow> [[x]] | w # ws \<Rightarrow> (x # w) # ws))"

text \<open>
  \<open>s.split(/\s+/)\<close>: the pieces between the maximal runs of white space; a leading or a
  trailing run leaves an empty piece at that end.
\<close>

function split_ws :: "string \<Rightarrow> string list" where
  "split_ws [] = [[]]"
| "split_ws (x # xs) =
     (if isWhiteSpace x then [] # split_ws (dropWhile isWhiteSpace xs)
      else (case split_ws xs of [] \<Rightarrow> [[x]] | w # ws \<Rightarrow> (x # w) # ws))"
  by pat_completeness auto
termination
  by (relation "measure length") (auto simp: length_dropWhile_le less_Suc_eq_le)

text \<open>\<open>xs[i]\<close> of JavaScript: \<open>undefined\<close> (here \<open>None\<close>) out of range.\<close>

definition at_index :: "'a list \<Rightarrow> nat \<Rightarrow> 'a option" where
  "at_index xs i = (if i < length xs then Some (xs ! i) else None)"

text \<open>Truthiness of an optional string: \<open>undefined\<close> and \<open>''\<close> are falsy.\<close>

fun truthy_str :: "string option \<Rightarrow> bool" where
  "truthy_str None = False"
| "truthy_str (Some s) = (s \<noteq> [])"


section \<open>Data model (\<open>types/dependency.ts\<close>)\<close>

datatype Severity = Low | Moderate | High | Critical

record Vulnerability =
  vuln_id :: string
  severity :: Severity
  title :: string
  description :: "string option"
  advisoryUrl :: "string option"
  cve :: "string list option"
  publishedDate :: "string option"
  lastModified :: "string option"


section \<open>\<open>DotNetCliService.normalizeSeverity\<close>\<close>

text \<open>
  The argument is whatever the JSON document holds under \<open>severity\<close>: \<open>Some s\<close> is the
  string \<open>s\<close>, \<open>None\<close> any value that is not a string (\<open>undefined\<close>, \<open>null\<close>, a number).
  The first test of the source, \<open>!severity || typeof severity !== 'string'\<close>, answers
  \<open>Low\<close> for these and for the empty string.
\<close>

definition normalizeSeverity :: "string option \<Rightarrow> Severity" where
  "normalizeSeverity sev =
     (case sev of
        None \<Rightarrow> Low
      | Some s \<Rightarrow>
          if s = [] then Low
          else
            let normalized = trim (toLowerCase s) in
            if normalized = ''critical'' then Critical
            else if normalized = ''high'' then High
            else if normalized = ''moderate'' \<or> normalized = ''medium'' then Moderate
            else if normalized = ''low'' then Low
            else Low)"


section \<open>Packages and errors (\<open>types/dependency.ts\<close>)\<close>

text \<open>
  \<open>NuGetPackage\<close>. An optional field is an \<open>option\<close>, \<open>None\<close> being \<open>undefined\<close>. The
  field \<open>id\<close> is named \<open>pkg_id\<close> (\<open>id\<close> is the identity function of HOL). The field
  \<open>dependencies\<close> is left out: none of the functions below reads or writes it.
\<close>

record NuGetPackage =
  pkg_id :: string
  version :: string
  resolved :: "string option"
  vulnerabilities :: "Vulnerability list option"
  isTransitive :: "bool option"
  depth :: "nat option"
  framework :: "string option"
  source :: "string option"
  isDevelopmentDependency :: "bool option"

datatype ErrorCategory = validation | analysis | visualization | system

text \<open>
  \<open>ExtensionError\<close>: the fields that decide control flow. The two message texts
  (\<open>userMessage\<close>, \<open>technicalDetails\<close>) are never read by the code and are left out.
\<close>

record ExtensionError =
  code :: string
  category :: ErrorCategory
  recoverable :: bool

text \<open>
  What a \<open>throw\<close> can raise: an instance of one of the two error classes, the plain
  object built by \<open>createAnalysisError\<close> (it embeds both causes), or any other value,
  given by its \<open>String()\<close> rendering.
\<close>

datatype thrown =
    DotNetCliError ExtensionError
  | ProjectFileError ExtensionError
  | DependencyAnalysisError ExtensionError thrown thrown
  | OtherError string

record CommandResult =
  stdout :: string
  stderr :: string
  exitCode :: int
  command :: string
  executionTime :: int

text \<open>The options the service passes to the executor (\<open>env\<close>, \<open>encoding\<close> are never set).\<close>

record CommandExecutionOptions =
  cwd :: "string option"
  timeout :: "int option"

record ListPackagesOptions =
  includeTransitive :: "bool option"
  framework_opt :: "string option"
  source_opt :: "string option"
  format :: "string option"

text \<open>
  \<open>CommandExecutor.executeCommand\<close> runs an external process: its outcome is an input of
  the model, a function of the command line. \<open>Inr\<close> is the \<open>CommandResult\<close> returned,
  \<open>Inl s\<close> a rejection with a value whose \<open>String()\<close> rendering is \<open>s\<close>.
\<close>

type_synonym executor = "string \<Rightarrow> string list \<Rightarrow> CommandExecutionOptions \<Rightarrow> string + CommandResult"


section \<open>\<open>DotNetCliService\<close> (\<open>services/dotnetCliService.ts\<close>)\<close>

definition SDK_NOT_FOUND :: string where "SDK_NOT_FOUND = ''DOTNET_SDK_NOT_FOUND''"
definition SDK_VERSION_INCOMPATIBLE :: string where
  "SDK_VERSION_INCOMPATIBLE = ''DOTNET_SDK_VERSION_INCOMPATIBLE''"
definition PROJECT_NOT_FOUND :: string where "PROJECT_NOT_FOUND = ''DOTNET_PROJECT_NOT_FOUND''"
definition PROJECT_INVALID :: string where "PROJECT_INVALID = ''DOTNET_PROJECT_INVALID''"
definition RESTORE_FAILED :: string where "RESTORE_FAILED = ''DOTNET_RESTORE_FAILED''"
definition LIST_PACKAGES_FAILED :: string where
  "LIST_PACKAGES_FAILED = ''DOTNET_LIST_PACKAGES_FAILED''"
definition VULNERABILITY_SCAN_FAILED :: string where
  "VULNERABILITY_SCAN_FAILED = ''DOTNET_VULNERABILITY_SCAN_FAILED''"
definition TIMEOUT :: string where "TIMEOUT = ''DOTNET_COMMAND_TIMEOUT''"
definition PERMISSION_DENIED :: string where "PERMISSION_DENIED = ''DOTNET_PERMISSION_DENIED''"
definition NETWORK_ERROR :: string where "NETWORK_ERROR = ''DOTNET_NETWORK_ERROR''"
definition UNKNOWN_ERROR :: string where "UNKNOWN_ERROR = ''DOTNET_UNKNOWN_ERROR''"

definition defaultTimeout :: int where "defaultTimeout = 60000"

definition createDotNetError :: "string \<Rightarrow> ErrorCategory \<Rightarrow> bool \<Rightarrow> ExtensionError" where
  "createDotNetError c cat r = \<lparr>code = c, category = cat, recoverable = r\<rparr>"

text \<open>
  The three classifiers take \<open>String(error)\<close>. Their first line, \<open>if (!error) return false\<close>,
  is the test for the empty string here (the renderings of the other falsy values,
  \<open>undefined\<close>, \<open>null\<close>, \<open>0\<close>, \<open>NaN\<close>, \<open>false\<close>, contain none of the keywords).
\<close>

definition isCommandNotFoundError :: "string \<Rightarrow> bool" where
  "isCommandNotFoundError error =
     (if error = [] then False
      else let errorStr = toLowerCase error in
        includes_str errorStr ''command not found'' \<or>
        includes_str errorStr ''is not recognized'' \<or>
        includes_str errorStr ''not found'' \<or>
        includes_str errorStr ''enoent'' \<or>
        includes_str errorStr ''spawn dotnet'')"

definition isTimeoutError :: "string \<Rightarrow> bool" where
  "isTimeoutError error =
     (if error = [] then False
      else let errorStr = toLowerCase error in
        includes_str errorStr ''timeout'' \<or>
        includes_str errorStr ''timed out'' \<or>
        includes_str errorStr ''etimedout'')"

definition isNetworkError :: "string \<Rightarrow> bool" where
  "isNetworkError error =
     (if error = [] then False
      else let errorStr = toLowerCase error in
        includes_str errorStr ''network'' \<or>
        includes_str errorStr ''connection'' \<or>
        includes_str errorStr ''dns'' \<or>
        includes_str errorStr ''enotfound'' \<or>
        includes_str errorStr ''econnrefused'' \<or>
        includes_str errorStr ''econnreset'' \<or>
        includes_str errorStr ''unable to load the service index'')"

text \<open>\<open>`${stderr} ${stdout}`.toLowerCase()\<close>, computed by each of the error handlers.\<close>

definition combinedOutput :: "CommandResult \<Rightarrow> string" where
  "combinedOutput result = toLowerCase (stderr result @ '' '' @ stdout result)"

text \<open>\<open>handleListPackagesError\<close> always throws: the value is the error thrown.\<close>

definition handleListPackagesError :: "CommandResult \<Rightarrow> string \<Rightarrow> ExtensionError" where
  "handleListPackagesError result projectPath =
     (let out = combinedOutput result in
      if includes_str out ''could not find project'' \<or>
         includes_str out ''project file does not exist''
      then createDotNetError PROJECT_NOT_FOUND validation False
      else if includes_str out ''invalid project'' \<or> includes_str out ''malformed'' \<or>
              includes_str out ''xml''
      then createDotNetError PROJECT_INVALID validation True
      else if includes_str out ''access denied'' \<or> includes_str out ''permission denied'' \<or>
              includes_str out ''unauthorized''
      then createDotNetError PERMISSION_DENIED system True
      else if isNetworkError out
      then createDotNetError NETWORK_ERROR system True
      else createDotNetError LIST_PACKAGES_FAILED analysis True)"

text \<open>
  \<open>handleVulnerabilityScanError\<close> returns the empty list or throws.
\<close>

definition handleVulnerabilityScanError ::
  "CommandResult \<Rightarrow> string \<Rightarrow> ExtensionError + NuGetPackage list" where
  "handleVulnerabilityScanError result projectPath =
     (let out = combinedOutput result in
      if includes_str out ''no vulnerable packages found'' \<or>
         includes_str out ''no vulnerabilities found'' \<or>
         includes_str out ''no packages with known vulnerabilities''
      then Inr []
      else if includes_str out ''could not find project'' \<or>
              includes_str out ''project file does not exist''
      then Inl (createDotNetError PROJECT_NOT_FOUND validation False)
      else if isNetworkError out
      then Inl (createDotNetError NETWORK_ERROR system True)
      else if includes_str out ''access denied'' \<or> includes_str out ''permission denied''
      then Inl (createDotNetError PERMISSION_DENIED system True)
      else Inl (createDotNetError VULNERABILITY_SCAN_FAILED analysis True))"


subsection \<open>Parsing the listing\<close>

text \<open>
  The document that \<open>JSON.parse\<close> returns for the output of
  \<open>dotnet list package --format json\<close>, at the shape the code reads:
  \<open>{projects: [{frameworks: [{framework, topLevelPackages: [{id, requestedVersion,
  resolvedVersion}], transitivePackages: [{id, resolvedVersion}]}]}]}\<close>. Every field
  is absent (\<open>None\<close>) or of its documented type, a string or an array of objects; documents
  with a field of another JSON type are outside the model.
\<close>

record PackageJson =
  id_json :: "string option"
  requestedVersion :: "string option"
  resolvedVersion :: "string option"

record FrameworkJson =
  framework_json :: "string option"
  topLevelPackages_json :: "PackageJson list option"
  transitivePackages_json :: "PackageJson list option"

record ProjectJson =
  frameworks_json :: "FrameworkJson list option"

record ListOutputJson =
  projects :: "ProjectJson list option"

text \<open>
  \<open>JSON.parse\<close> is a library function, taken as a parameter: \<open>Inr\<close> the document,
  \<open>Inl s\<close> a \<open>SyntaxError\<close> whose rendering is \<open>s\<close>.
\<close>

type_synonym json_parse = "string \<Rightarrow> string + ListOutputJson"

text \<open>\<open>a || b\<close> on an optional string and a string.\<close>

fun or_else :: "string option \<Rightarrow> string \<Rightarrow> string" where
  "or_else None d = d"
| "or_else (Some s) d = (if s = [] then d else s)"

definition topLevelPackage :: "string \<Rightarrow> PackageJson \<Rightarrow> NuGetPackage list" where
  "topLevelPackage frameworkName pkg =
     (if \<not> truthy_str (id_json pkg) then []
      else [\<lparr>pkg_id = or_else (id_json pkg) [],
             version = or_else (requestedVersion pkg) (or_else (resolvedVersion pkg) ''unknown''),
             resolved = resolvedVersion pkg,
             vulnerabilities = None,
             isTransitive = Some False,
             depth = Some 0,
             framework = Some frameworkName,
             source = None,
             isDevelopmentDependency = None\<rparr>])"

definition transitivePackage :: "string \<Rightarrow> PackageJson \<Rightarrow> NuGetPackage list" where
  "transitivePackage frameworkName pkg =
     (if \<not> truthy_str (id_json pkg) then []
      else [\<lparr>pkg_id = or_else (id_json pkg) [],
             version = or_else (resolvedVersion pkg) ''unknown'',
             resolved = resolvedVersion pkg,
             vulnerabilities = None,
             isTransitive = Some True,
             depth = Some 1,
             framework = Some frameworkName,
             source = None,
             isDevelopmentDependency = None\<rparr>])"

definition frameworkPackages :: "FrameworkJson \<Rightarrow> NuGetPackage list" where
  "frameworkPackages fw =
     (let frameworkName = or_else (framework_json fw) ''unknown'' in
      (case topLevelPackages_json fw of
         None \<Rightarrow> []
       | Some pkgs \<Rightarrow> concat (map (topLevelPackage frameworkName) pkgs)) @
      (case transitivePackages_json fw of
         None \<Rightarrow> []
       | Some pkgs \<Rightarrow> concat (map (transitivePackage frameworkName) pkgs)))"

definition projectPackages :: "ProjectJson \<Rightarrow> NuGetPackage list" where
  "projectPackages project =
     (case frameworks_json project of
        None \<Rightarrow> []
      | Some fws \<Rightarrow> concat (map frameworkPackages fws))"

text \<open>
  \<open>parseJsonOutput\<close>: \<open>Inl s\<close> is the \<open>Error\<close> thrown by the \<open>catch\<close> block, given by its
  rendering (the message quotes the first 200 characters of the output).
\<close>

definition parseJsonOutput :: "json_parse \<Rightarrow> string \<Rightarrow> string + NuGetPackage list" where
  "parseJsonOutput JSON_parse output =
     (if output = [] \<or> trim output = [] then Inr []
      else
        (case JSON_parse output of
           Inl err \<Rightarrow>
             Inl (''Error: Failed to parse dotnet CLI JSON output: '' @ err @
                  ''. Output was: '' @ take 200 output @ ''...'')
         | Inr result \<Rightarrow>
             (case projects result of
                None \<Rightarrow> Inr []
              | Some ps \<Rightarrow> if ps = [] then Inr [] else Inr (concat (map projectPackages ps)))))"

text \<open>
  \<open>parseTableOutput\<close>, one line at a time. \<open>parts.length >= 2 && parts[0] && parts[1]\<close>
  is the pattern of a list with two elements at least, both strings not empty.
\<close>

definition parseTableLine :: "string \<Rightarrow> NuGetPackage list" where
  "parseTableLine line =
     (let trimmed = trim line in
      if startsWith trimmed ''>'' then
        (let parts = split_ws (trim (drop 1 trimmed)) in
         case parts of
           p0 # p1 # _ \<Rightarrow>
             if p0 \<noteq> [] \<and> p1 \<noteq> [] then
               [\<lparr>pkg_id = p0,
                 version = p1,
                 resolved = Some (or_else (at_index parts 2) p1),
                 vulnerabilities = None,
                 isTransitive = Some False,
                 depth = Some 0,
                 framework = None,
                 source = None,
                 isDevelopmentDependency = None\<rparr>]
             else []
         | _ \<Rightarrow> [])
      else [])"

definition parseTableOutput :: "string \<Rightarrow> NuGetPackage list" where
  "parseTableOutput output = concat (map parseTableLine (split_char (CHR 0x0A) output))"

subsection \<open>\<open>listPackages\<close> and \<open>listVulnerablePackages\<close>\<close>

text \<open>
  The value caught by a \<open>catch\<close> block of the service: an instance of
  \<open>DotNetCliError\<close>, or anything else, given by its rendering.
\<close>

datatype caught = CaughtCliError ExtensionError | CaughtOther string

definition listPackagesArgs :: "string \<Rightarrow> ListPackagesOptions \<Rightarrow> string list" where
  "listPackagesArgs projectPath options =
     [''list'', projectPath, ''package''] @
     (if includeTransitive options = Some True then [''--include-transitive''] else []) @
     (if truthy_str (framework_opt options)
      then [''--framework'', or_else (framework_opt options) []] else []) @
     (if truthy_str (source_opt options)
      then [''--source'', or_else (source_opt options) []] else []) @
     (if truthy_str (format options)
      then [''--format'', or_else (format options) []] else [])"

text \<open>The \<open>try\<close> block of \<open>listPackages\<close>.\<close>

definition listPackages_try ::
  "executor \<Rightarrow> json_parse \<Rightarrow> string \<Rightarrow> ListPackagesOptions \<Rightarrow> caught + NuGetPackage list" where
  "listPackages_try exec JSON_parse projectPath options =
     (case exec ''dotnet'' (listPackagesArgs projectPath options)
             \<lparr>cwd = None, timeout = Some defaultTimeout\<rparr> of
        Inl err \<Rightarrow> Inl (CaughtOther err)
      | Inr result \<Rightarrow>
          if exitCode result \<noteq> 0
          then Inl (CaughtCliError (handleListPackagesError result projectPath))
          else if format options = Some ''json''
          then (case parseJsonOutput JSON_parse (stdout result) of
                  Inl err \<Rightarrow> Inl (CaughtOther err)
                | Inr pkgs \<Rightarrow> Inr pkgs)
          else Inr (parseTableOutput (stdout result)))"

definition listPackages ::
  "executor \<Rightarrow> json_parse \<Rightarrow> string \<Rightarrow> ListPackagesOptions \<Rightarrow> thrown + NuGetPackage list" where
  "listPackages exec JSON_parse projectPath options =
     (if projectPath = []
      then Inl (DotNetCliError (createDotNetError PROJECT_INVALID validation False))
      else
        (case listPackages_try exec JSON_parse projectPath options of
           Inr pkgs \<Rightarrow> Inr pkgs
         | Inl (CaughtCliError e) \<Rightarrow> Inl (DotNetCliError e)
         | Inl (CaughtOther error) \<Rightarrow>
             if isTimeoutError error
             then Inl (DotNetCliError (createDotNetError TIMEOUT system True))
             else if isCommandNotFoundError error
             then Inl (DotNetCliError (createDotNetError SDK_NOT_FOUND system False))
             else Inl (DotNetCliError (createDotNetError LIST_PACKAGES_FAILED analysis True))))"

text \<open>
  The \<open>try\<close> block of \<open>listVulnerablePackages\<close>. On exit code 0 the output goes to
  \<open>parseVulnerablePackagesOutput\<close>, taken here as a parameter (\<open>Inl s\<close> the \<open>Error\<close> it
  throws, by its rendering): the branch for the other exit codes does not call it.
  \<open>options.timeout || this.defaultTimeout\<close>: a timeout of 0 is falsy.
\<close>

definition scanArgs :: "string \<Rightarrow> string list" where
  "scanArgs projectPath = [''list'', projectPath, ''package'', ''--vulnerable'', ''--format'', ''json'']"

definition scanExecOptions :: "CommandExecutionOptions \<Rightarrow> CommandExecutionOptions" where
  "scanExecOptions options =
     \<lparr>cwd = (if truthy_str (cwd options) then cwd options else None),
      timeout = Some (case timeout options of
                        None \<Rightarrow> defaultTimeout
                      | Some t \<Rightarrow> if t = 0 then defaultTimeout else t)\<rparr>"

definition listVulnerablePackages_try ::
  "executor \<Rightarrow> (string \<Rightarrow> string + NuGetPackage list) \<Rightarrow> string \<Rightarrow> CommandExecutionOptions
     \<Rightarrow> caught + NuGetPackage list" where
  "listVulnerablePackages_try exec parseVulnerablePackagesOutput projectPath options =
     (case exec ''dotnet'' (scanArgs projectPath) (scanExecOptions options) of
        Inl err \<Rightarrow> Inl (CaughtOther err)
      | Inr result \<Rightarrow>
          if exitCode result \<noteq> 0
          then (case handleVulnerabilityScanError result projectPath of
                  Inl e \<Rightarrow> Inl (CaughtCliError e)
                | Inr pkgs \<Rightarrow> Inr pkgs)
          else (case parseVulnerablePackagesOutput (stdout result) of
                  Inl err \<Rightarrow> Inl (CaughtOther err)
                | Inr pkgs \<Rightarrow> Inr pkgs))"

definition listVulnerablePackages ::
  "executor \<Rightarrow> (string \<Rightarrow> string + NuGetPackage list) \<Rightarrow> string \<Rightarrow> CommandExecutionOptions
     \<Rightarrow> thrown + NuGetPackage list" where
  "listVulnerablePackages exec parseVulnerablePackagesOutput projectPath options =
     (if projectPath = []
      then Inl (DotNetCliError (createDotNetError PROJECT_INVALID validation False))
      else
        (case listVulnerablePackages_try exec parseVulnerablePackagesOutput projectPath options of
           Inr pkgs \<Rightarrow> Inr pkgs
         | Inl (CaughtCliError e) \<Rightarrow> Inl (DotNetCliError e)
         | Inl (CaughtOther error) \<Rightarrow>
             if isTimeoutError error
             then Inl (DotNetCliError (createDotNetError TIMEOUT system True))
             else if isNetworkError error
             then Inl (DotNetCliError (createDotNetError NETWORK_ERROR system True))
             else if isCommandNotFoundError error
             then Inl (DotNetCliError (createDotNetError SDK_NOT_FOUND system False))
             else Inl (DotNetCliError (createDotNetError VULNERABILITY_SCAN_FAILED analysis True))))"


section \<open>\<open>NuGetDependencyProvider\<close> (\<open>providers/nugetDependencyProvider.ts\<close>)\<close>

datatype AnalysisMethod = dotnet_cli | project_file | hybrid | mock

datatype GraphMode = Dependencies | Vulnerabilities | Full

datatype ProjectType = dotnet_core | dotnet_framework | dotnet_5plus | unknown_type

record VulnerabilityCount =
  critical :: nat
  high :: nat
  moderate :: nat
  low :: nat
  total :: nat

record VulnerabilityScanResult =
  scan_packages :: "NuGetPackage list"
  scan_vulnerabilityCount :: VulnerabilityCount
  scanTimestamp :: int
  scan_source :: string
  scan_error :: "string option"

record ProjectValidationResult =
  isValid :: bool
  errors :: "string list"
  warnings :: "string list"
  projectType :: ProjectType
  frameworks :: "string list"

record AnalysisMetadata =
  timestamp :: int
  analysisMethod :: AnalysisMethod
  framework_meta :: "string option"
  sdkVersion :: "string option"
  hasTransitiveDependencies :: bool
  hasVulnerabilityData :: bool

record GraphNode =
  node_id :: string
  name :: string
  node_version :: string
  group :: string
  val :: nat
  color :: string
  node_vulnerabilities :: "Vulnerability list option"
  isRoot :: bool
  node_depth :: nat

record GraphLink =
  link_source :: string
  target :: string
  link_value :: rat
  link_color :: string

record GraphData =
  nodes :: "GraphNode list"
  links :: "GraphLink list"

record DependencyAnalysisResult =
  projectName :: string
  projectPath :: string
  packages :: "NuGetPackage list"
  graphData :: GraphData
  vulnerabilityCount :: VulnerabilityCount
  analysisMetadata :: AnalysisMetadata

text \<open>
  The services the provider holds, and the library calls it makes, as functions: each
  gives the outcome of the call, \<open>Inl\<close> a thrown value. \<open>validateProject\<close> is the provider's
  own method; it reads the project file from disk, so its result is an input too.
\<close>

record collaborators =
  dotnetCliService_listPackages :: "string \<Rightarrow> ListPackagesOptions \<Rightarrow> thrown + NuGetPackage list"
  dotnetCliService_getVersion :: "thrown + string"
  projectFileParser_parseProjectFile :: "string \<Rightarrow> thrown + NuGetPackage list"
  vulnerabilityScanner_scanProject :: "string \<Rightarrow> thrown + VulnerabilityScanResult"
  validateProject :: "string \<Rightarrow> thrown + ProjectValidationResult"
  new_Date :: int
  path_basename :: "string \<Rightarrow> string \<Rightarrow> string"

datatype call =
    Call_listPackages string ListPackagesOptions
  | Call_scanProject string
  | Call_parseProjectFile string

text \<open>
  The mutable state of the provider is the field \<open>lastAnalysisMethod\<close>. \<open>calls\<close> is a ghost
  field: the log of the calls made to the three services, in order.
\<close>

record provider_state =
  lastAnalysisMethod :: AnalysisMethod
  calls :: "call list"

definition initial_state :: provider_state where
  "initial_state = \<lparr>lastAnalysisMethod = dotnet_cli, calls = []\<rparr>"

definition log_call :: "call \<Rightarrow> provider_state \<Rightarrow> provider_state" where
  "log_call c st = st\<lparr>calls := calls st @ [c]\<rparr>"

subsection \<open>\<open>mergeVulnerabilityData\<close>\<close>

text \<open>
  \<open>packages.find(p => p.id === vulnPkg.id)\<close> followed by the assignment to the package
  found: the first package of that id gets the list, the others stay as they are. The
  packages of the list are distinct objects (each parser builds a fresh object literal
  for each entry), so the assignment changes one position.
\<close>

fun assign_first :: "string \<Rightarrow> Vulnerability list \<Rightarrow> NuGetPackage list \<Rightarrow> NuGetPackage list" where
  "assign_first i vs [] = []"
| "assign_first i vs (p # ps) =
     (if pkg_id p = i then p\<lparr>vulnerabilities := Some vs\<rparr> # ps
      else p # assign_first i vs ps)"

text \<open>One turn of the loop; an array, even an empty one, is truthy.\<close>

definition merge_one :: "NuGetPackage list \<Rightarrow> NuGetPackage \<Rightarrow> NuGetPackage list" where
  "merge_one pkgs vulnPkg =
     (case vulnerabilities vulnPkg of
        None \<Rightarrow> pkgs
      | Some vs \<Rightarrow> assign_first (pkg_id vulnPkg) vs pkgs)"

definition mergeVulnerabilityData :: "NuGetPackage list \<Rightarrow> NuGetPackage list \<Rightarrow> NuGetPackage list" where
  "mergeVulnerabilityData pkgs vulnerablePackages = foldl merge_one pkgs vulnerablePackages"

subsection \<open>\<open>analyzeDependencies\<close>\<close>

definition createAnalysisError :: "thrown \<Rightarrow> thrown \<Rightarrow> string \<Rightarrow> thrown" where
  "createAnalysisError primaryError fallbackError path =
     DependencyAnalysisError
       \<lparr>code = ''DEPENDENCY_ANALYSIS_FAILED'', category = analysis, recoverable = False\<rparr>
       primaryError fallbackError"

text \<open>The fallback of the \<open>catch\<close> block, written twice in the source.\<close>

definition attempt_fallback ::
  "collaborators \<Rightarrow> provider_state \<Rightarrow> string \<Rightarrow> thrown \<Rightarrow> (thrown + NuGetPackage list) \<times> provider_state" where
  "attempt_fallback env st path error =
     (let st1 = log_call (Call_parseProjectFile path) st in
      case projectFileParser_parseProjectFile env path of
        Inr pkgs \<Rightarrow> (Inr pkgs, st1\<lparr>lastAnalysisMethod := project_file\<rparr>)
      | Inl fallbackError \<Rightarrow> (Inl (createAnalysisError error fallbackError path), st1))"

text \<open>The options of the listing: \<open>{includeTransitive, format: 'json'}\<close>.\<close>

definition json_options :: "bool \<Rightarrow> ListPackagesOptions" where
  "json_options includeTransitive_arg =
     \<lparr>includeTransitive = Some includeTransitive_arg, framework_opt = None,
      source_opt = None, format = Some ''json''\<rparr>"

definition analyzeDependencies ::
  "collaborators \<Rightarrow> provider_state \<Rightarrow> string \<Rightarrow> bool \<Rightarrow> bool
     \<Rightarrow> (thrown + NuGetPackage list) \<times> provider_state" where
  "analyzeDependencies env st path includeVulnerabilities includeTransitive_arg =
     (let options = json_options includeTransitive_arg;
          st1 = log_call (Call_listPackages path options) st
      in
      case dotnetCliService_listPackages env path options of
        Inr pkgs \<Rightarrow>
          if includeVulnerabilities then
            (let st2 = log_call (Call_scanProject path) st1 in
             case vulnerabilityScanner_scanProject env path of
               Inr vulnerabilityScanResult \<Rightarrow>
                 (Inr (mergeVulnerabilityData pkgs (scan_packages vulnerabilityScanResult)),
                  st2\<lparr>lastAnalysisMethod := dotnet_cli\<rparr>)
             | Inl vulnError \<Rightarrow> (Inr pkgs, st2\<lparr>lastAnalysisMethod := dotnet_cli\<rparr>))
          else (Inr pkgs, st1\<lparr>lastAnalysisMethod := dotnet_cli\<rparr>)
      | Inl error \<Rightarrow>
          (case error of
             DotNetCliError e \<Rightarrow>
               if recoverable e \<or> code e = SDK_NOT_FOUND
               then attempt_fallback env st1 path error
               else (Inl error, st1)
           | _ \<Rightarrow> attempt_fallback env st1 path error))"

subsection \<open>Graph synthesis\<close>

definition vulnerabilityColors :: "Severity \<Rightarrow> string" where
  "vulnerabilityColors sev =
     (case sev of Critical \<Rightarrow> ''#8B0000'' | High \<Rightarrow> ''#FF4500''
                | Moderate \<Rightarrow> ''#FFA500'' | Low \<Rightarrow> ''#FFD700'')"

definition packageColors :: "string list" where
  "packageColors = [''#1f77b4'', ''#ff7f0e'', ''#2ca02c'', ''#d62728'', ''#9467bd'',
                    ''#8c564b'', ''#e377c2'', ''#7f7f7f'', ''#bcbd22'', ''#17becf'']"

definition getHighestSeverity :: "Vulnerability list \<Rightarrow> Severity" where
  "getHighestSeverity vs =
     (if \<exists>v \<in> set vs. severity v = Critical then Critical
      else if \<exists>v \<in> set vs. severity v = High then High
      else if \<exists>v \<in> set vs. severity v = Moderate then Moderate
      else if \<exists>v \<in> set vs. severity v = Low then Low
      else Low)"

text \<open>\<open>pkg.isTransitive\<close> as a condition: \<open>undefined\<close> is falsy.\<close>

definition is_transitive :: "NuGetPackage \<Rightarrow> bool" where
  "is_transitive pkg = (isTransitive pkg = Some True)"

definition nodeKey :: "NuGetPackage \<Rightarrow> string" where
  "nodeKey pkg = pkg_id pkg @ ''@'' @ version pkg"

definition createNode :: "GraphMode \<Rightarrow> nat \<Rightarrow> NuGetPackage \<Rightarrow> GraphNode" where
  "createNode mode index pkg =
     \<lparr>node_id = nodeKey pkg,
      name = pkg_id pkg,
      node_version = version pkg,
      group = (if is_transitive pkg then ''transitive'' else ''direct''),
      val = (case vulnerabilities pkg of None \<Rightarrow> 1 | Some vs \<Rightarrow> length vs + 1),
      color =
        (if mode = Vulnerabilities \<and>
            (case vulnerabilities pkg of None \<Rightarrow> False | Some vs \<Rightarrow> length vs > 0)
         then (case vulnerabilities pkg of
                 None \<Rightarrow> ''#6c757d''
               | Some vs \<Rightarrow> vulnerabilityColors (getHighestSeverity vs))
         else if mode = Dependencies \<or> mode = Full
         then (case at_index packageColors (index mod length packageColors) of
                 None \<Rightarrow> ''#6c757d'' | Some c \<Rightarrow> c)
         else ''#6c757d''),
      node_vulnerabilities = vulnerabilities pkg,
      isRoot = (\<not> is_transitive pkg),
      node_depth = (case depth pkg of None \<Rightarrow> 0 | Some d \<Rightarrow> d)\<rparr>"

definition hasCommonDependencyPattern :: "string \<Rightarrow> string \<Rightarrow> bool" where
  "hasCommonDependencyPattern pkg1Id pkg2Id =
     ((includes_str pkg1Id ''EntityFramework'' \<and> includes_str pkg2Id ''EntityFramework'') \<or>
      (includes_str pkg1Id ''AspNetCore'' \<and> includes_str pkg2Id ''AspNetCore'') \<or>
      (includes_str pkg1Id ''Logging'' \<and> includes_str pkg2Id ''Logging'') \<or>
      (includes_str pkg1Id ''Configuration'' \<and> includes_str pkg2Id ''Configuration''))"

definition shouldCreateLink :: "NuGetPackage \<Rightarrow> NuGetPackage \<Rightarrow> bool" where
  "shouldCreateLink directPkg transitivePkg =
     ((startsWith (pkg_id directPkg) ''Microsoft.'' \<and>
       startsWith (pkg_id transitivePkg) ''Microsoft.'') \<or>
      (startsWith (pkg_id directPkg) ''System.'' \<and>
       startsWith (pkg_id transitivePkg) ''System.'') \<or>
      at_index (split_char (CHR ''.'') (pkg_id directPkg)) 0 =
        at_index (split_char (CHR ''.'') (pkg_id transitivePkg)) 0 \<or>
      hasCommonDependencyPattern (pkg_id directPkg) (pkg_id transitivePkg))"

definition arePackagesRelated :: "NuGetPackage \<Rightarrow> NuGetPackage \<Rightarrow> bool" where
  "arePackagesRelated pkg1 pkg2 =
     (let pkg1Parts = split_char (CHR ''.'') (pkg_id pkg1);
          pkg2Parts = split_char (CHR ''.'') (pkg_id pkg2)
      in
      if at_index pkg1Parts 0 = at_index pkg2Parts 0 then True
      else if length pkg1Parts \<ge> 2 \<and> length pkg2Parts \<ge> 2 \<and>
              at_index pkg1Parts 0 = at_index pkg2Parts 0 \<and>
              at_index pkg1Parts 1 = at_index pkg2Parts 1
      then True
      else False)"

definition linkColor :: "GraphMode \<Rightarrow> string \<Rightarrow> string" where
  "linkColor mode other = (if mode = Vulnerabilities then ''#ff6b6b'' else other)"

definition directLink :: "GraphMode \<Rightarrow> NuGetPackage \<Rightarrow> NuGetPackage \<Rightarrow> GraphLink" where
  "directLink mode directPkg transitivePkg =
     \<lparr>link_source = nodeKey directPkg, target = nodeKey transitivePkg,
      link_value = 1, link_color = linkColor mode ''#999''\<rparr>"

definition transitiveLink :: "GraphMode \<Rightarrow> NuGetPackage \<Rightarrow> NuGetPackage \<Rightarrow> GraphLink" where
  "transitiveLink mode pkg1 pkg2 =
     \<lparr>link_source = nodeKey pkg1, target = nodeKey pkg2,
      link_value = 1 / 2, link_color = linkColor mode ''#ccc''\<rparr>"

text \<open>The first loop of \<open>createSyntheticLinks\<close>: direct packages outside, transitive inside.\<close>

definition heuristicDirectLinks ::
  "GraphMode \<Rightarrow> NuGetPackage list \<Rightarrow> NuGetPackage list \<Rightarrow> GraphLink list" where
  "heuristicDirectLinks mode directPackages transitivePackages =
     concat (map (\<lambda>directPkg.
        map (directLink mode directPkg)
            (filter (shouldCreateLink directPkg) transitivePackages)) directPackages)"

text \<open>The second loop: the pairs \<open>i < j\<close> of the transitive packages, \<open>i\<close> outside.\<close>

fun relatedLinks :: "GraphMode \<Rightarrow> NuGetPackage list \<Rightarrow> GraphLink list" where
  "relatedLinks mode [] = []"
| "relatedLinks mode (pkg1 # rest) =
     map (transitiveLink mode pkg1) (filter (arePackagesRelated pkg1) rest) @
     relatedLinks mode rest"

text \<open>
  \<open>Math.ceil(a / b)\<close> for array lengths \<open>a\<close> and \<open>b > 0\<close>: lengths are below \<open>2^32\<close>, where
  the floating-point quotient rounds up to the exact integer ceiling.
\<close>

definition ceil_div :: "nat \<Rightarrow> nat \<Rightarrow> nat" where
  "ceil_div a b = (a + b - 1) div b"

definition fallbackSlice ::
  "GraphMode \<Rightarrow> NuGetPackage list \<Rightarrow> nat \<Rightarrow> nat \<times> NuGetPackage \<Rightarrow> GraphLink list" where
  "fallbackSlice mode transitivePackages nDirect entry =
     (case entry of (index, directPkg) \<Rightarrow>
        let startIndex = index * ceil_div (length transitivePackages) nDirect;
            endIndex = min (startIndex + ceil_div (length transitivePackages) nDirect)
                           (length transitivePackages)
        in concat (map (\<lambda>i. case at_index transitivePackages i of
                                None \<Rightarrow> []
                              | Some transitivePkg \<Rightarrow> [directLink mode directPkg transitivePkg])
                       [startIndex ..< endIndex]))"

definition createFallbackLinks ::
  "NuGetPackage list \<Rightarrow> GraphLink list \<Rightarrow> GraphMode \<Rightarrow> GraphLink list" where
  "createFallbackLinks pkgs lnks mode =
     (let directPackages = filter (\<lambda>pkg. \<not> is_transitive pkg) pkgs;
          transitivePackages = filter is_transitive pkgs
      in
      if length directPackages > 0 \<and> length transitivePackages > 0
      then lnks @ concat (map (fallbackSlice mode transitivePackages (length directPackages))
                              (enumerate 0 directPackages))
      else lnks)"

text \<open>
  \<open>createSyntheticLinks\<close> pushes onto the array \<open>links\<close> it is given: the value is the
  array afterwards. The map of nodes it also receives is never read.
\<close>

definition createSyntheticLinks ::
  "NuGetPackage list \<Rightarrow> GraphLink list \<Rightarrow> GraphMode \<Rightarrow> GraphLink list" where
  "createSyntheticLinks pkgs lnks mode =
     (let directPackages = filter (\<lambda>pkg. \<not> is_transitive pkg) pkgs;
          transitivePackages = filter is_transitive pkgs;
          lnks1 = lnks @ heuristicDirectLinks mode directPackages transitivePackages;
          lnks2 = lnks1 @ relatedLinks mode transitivePackages
      in
      if length lnks2 = 0 \<and> length pkgs > 1
      then createFallbackLinks pkgs lnks2 mode
      else lnks2)"

definition createGraphData :: "NuGetPackage list \<Rightarrow> GraphMode \<Rightarrow> GraphData" where
  "createGraphData pkgs mode =
     \<lparr>nodes = map (\<lambda>(index, pkg). createNode mode index pkg) (enumerate 0 pkgs),
      links = createSyntheticLinks pkgs [] mode\<rparr>"

subsection \<open>The three entry points\<close>

definition countVulnerabilities :: "NuGetPackage list \<Rightarrow> VulnerabilityCount" where
  "countVulnerabilities pkgs =
     (let vs = concat (map (\<lambda>pkg. case vulnerabilities pkg of None \<Rightarrow> [] | Some l \<Rightarrow> l) pkgs)
      in \<lparr>critical = length (filter (\<lambda>v. severity v = Critical) vs),
          high = length (filter (\<lambda>v. severity v = High) vs),
          moderate = length (filter (\<lambda>v. severity v = Moderate) vs),
          low = length (filter (\<lambda>v. severity v = Low) vs),
          total = length vs\<rparr>)"

text \<open>\<open>createAnalysisMetadata\<close> ignores its argument \<open>_method\<close> and reads the field.\<close>

definition createAnalysisMetadata ::
  "collaborators \<Rightarrow> provider_state \<Rightarrow> string \<Rightarrow> AnalysisMethod \<Rightarrow> bool \<Rightarrow> bool \<Rightarrow> AnalysisMetadata" where
  "createAnalysisMetadata env st path method_arg hasTransitive hasVulnData =
     \<lparr>timestamp = new_Date env,
      analysisMethod = lastAnalysisMethod st,
      framework_meta =
        (case validateProject env path of
           Inl e \<Rightarrow> None
         | Inr validationResult \<Rightarrow> at_index (frameworks validationResult) 0),
      sdkVersion = (case dotnetCliService_getVersion env of Inl e \<Rightarrow> None | Inr v \<Rightarrow> Some v),
      hasTransitiveDependencies = hasTransitive,
      hasVulnerabilityData = hasVulnData\<rparr>"

text \<open>
  The common body of \<open>getDependencies\<close>, \<open>getDependenciesWithVulnerabilities\<close> and
  \<open>getFullDependencyGraph\<close>, which differ in the five constants they pass.
\<close>

definition analysisResult ::
  "collaborators \<Rightarrow> provider_state \<Rightarrow> string \<Rightarrow> bool \<Rightarrow> bool \<Rightarrow> GraphMode \<Rightarrow> bool \<Rightarrow> bool
     \<Rightarrow> (thrown + DependencyAnalysisResult) \<times> provider_state" where
  "analysisResult env st path includeVulnerabilities includeTransitive_arg mode hasTransitive hasVulnData =
     (case analyzeDependencies env st path includeVulnerabilities includeTransitive_arg of
        (Inl error, st') \<Rightarrow> (Inl error, st')
      | (Inr pkgs, st') \<Rightarrow>
          (Inr \<lparr>projectName = path_basename env path ''.csproj'',
                projectPath = path,
                packages = pkgs,
                graphData = createGraphData pkgs mode,
                vulnerabilityCount = countVulnerabilities pkgs,
                analysisMetadata =
                  createAnalysisMetadata env st' path dotnet_cli hasTransitive hasVulnData\<rparr>,
           st'))"

definition getDependencies ::
  "collaborators \<Rightarrow> provider_state \<Rightarrow> string \<Rightarrow> (thrown + DependencyAnalysisResult) \<times> provider_state" where
  "getDependencies env st path = analysisResult env st path False False Dependencies False False"

definition getDependenciesWithVulnerabilities ::
  "collaborators \<Rightarrow> provider_state \<Rightarrow> string \<Rightarrow> (thrown + DependencyAnalysisResult) \<times> provider_state" where
  "getDependenciesWithVulnerabilities env st path =
     analysisResult env st path True False Vulnerabilities False True"

definition getFullDependencyGraph ::
  "collaborators \<Rightarrow> provider_state \<Rightarrow> string \<Rightarrow> (thrown + DependencyAnalysisResult) \<times> provider_state" where
  "getFullDependencyGraph env st path = analysisResult env st path False True Full True False"


section \<open>\<open>ProjectFileParser\<close> (\<open>services/projectFileParser.ts\<close>)\<close>

text \<open>
  The object that \<open>xml2js\<close> builds for a project file under the parser's options
  (\<open>explicitArray\<close>, attributes under \<open>$\<close>): child elements are arrays, absent children
  and absent attributes are \<open>None\<close>. Only the elements and attributes the parser reads
  are kept.
\<close>

record ItemAttrs =
  Include_attr :: "string option"
  Version_attr :: "string option"

record PackageReferenceXml =
  pr_attrs :: "ItemAttrs option"
  Version_child :: "string list option"

record ReferenceXml =
  ref_attrs :: "ItemAttrs option"
  HintPath :: "string list option"

record ItemGroupXml =
  PackageReference :: "PackageReferenceXml list option"
  Reference :: "ReferenceXml list option"

record ProjectAttrs =
  Sdk_attr :: "string option"
  xmlns_attr :: "string option"
  xmlns_xsi_attr :: "string option"

record ProjectXml =
  project_attrs :: "ProjectAttrs option"
  ItemGroup :: "ItemGroupXml list option"

record ProjectFileXml =
  Project :: "ProjectXml option"

text \<open>
  What the parser takes from outside: the helper methods that read the disk and run
  \<open>xml2js\<close>, by their outcomes (\<open>Inl\<close> a thrown value), the two regular expressions of
  \<open>parseReference\<close> by their first capture group, and
  \<open>path.join(path.dirname(projectPath), 'packages.config')\<close>.
\<close>

record parser_io =
  validateFileAccessWithDetails :: "string \<Rightarrow> thrown + unit"
  readProjectFileWithValidation :: "string \<Rightarrow> thrown + string"
  parseXmlWithErrorHandling :: "string \<Rightarrow> string \<Rightarrow> thrown + ProjectFileXml"
  validateProjectFile :: "string \<Rightarrow> ProjectValidationResult"
  parsePackagesConfig :: "string \<Rightarrow> thrown + NuGetPackage list"
  packagesConfigPath :: "string \<Rightarrow> string"
  match_packages_folder :: "string \<Rightarrow> string option"
  match_version :: "string \<Rightarrow> string option"

definition UNSUPPORTED_TYPE :: string where "UNSUPPORTED_TYPE = ''PROJECT_FILE_UNSUPPORTED_TYPE''"
definition CORRUPTED :: string where "CORRUPTED = ''PROJECT_FILE_CORRUPTED''"

definition createProjectFileError :: "string \<Rightarrow> ErrorCategory \<Rightarrow> bool \<Rightarrow> ExtensionError" where
  "createProjectFileError c cat r = \<lparr>code = c, category = cat, recoverable = r\<rparr>"

definition parsePackageReference :: "PackageReferenceXml \<Rightarrow> string list \<Rightarrow> NuGetPackage option" where
  "parsePackageReference packageRef fws =
     (case pr_attrs packageRef of
        None \<Rightarrow> None
      | Some attrs \<Rightarrow>
          if \<not> truthy_str (Include_attr attrs) then None
          else
            let ver = (if \<not> truthy_str (Version_attr attrs)
                       then (case Version_child packageRef of
                               None \<Rightarrow> Version_attr attrs
                             | Some children \<Rightarrow>
                                 if length children > 0 then at_index children 0
                                 else Version_attr attrs)
                       else Version_attr attrs)
            in
            if \<not> truthy_str ver then None
            else Some \<lparr>pkg_id = or_else (Include_attr attrs) [],
                       version = or_else ver [],
                       resolved = Some (or_else ver []),
                       vulnerabilities = None,
                       isTransitive = Some False,
                       depth = Some 0,
                       framework = (if length fws > 0 then at_index fws 0 else None),
                       source = Some ''project-file'',
                       isDevelopmentDependency = None\<rparr>)"

definition parseReference :: "parser_io \<Rightarrow> ReferenceXml \<Rightarrow> NuGetPackage option" where
  "parseReference io reference =
     (case ref_attrs reference of
        None \<Rightarrow> None
      | Some attrs \<Rightarrow>
          if \<not> truthy_str (Include_attr attrs) then None
          else
            (case HintPath reference of
               None \<Rightarrow> None
             | Some [] \<Rightarrow> None
             | Some (hintPath # _) \<Rightarrow>
                 (case match_packages_folder io hintPath of
                    None \<Rightarrow> None
                  | Some packageId \<Rightarrow>
                      let ver = (case match_version io hintPath of
                                   None \<Rightarrow> ''unknown'' | Some v \<Rightarrow> v)
                      in Some \<lparr>pkg_id = packageId,
                                version = ver,
                                resolved = Some ver,
                                vulnerabilities = None,
                                isTransitive = Some False,
                                depth = Some 0,
                                framework = None,
                                source = Some ''project-file'',
                                isDevelopmentDependency = None\<rparr>)))"

text \<open>A list of optional packages, the \<open>null\<close> results skipped.\<close>

definition pushed :: "NuGetPackage option list \<Rightarrow> NuGetPackage list" where
  "pushed rs = concat (map (\<lambda>r. case r of None \<Rightarrow> [] | Some pkg \<Rightarrow> [pkg]) rs)"

definition itemGroups :: "ProjectFileXml \<Rightarrow> ItemGroupXml list" where
  "itemGroups projectXml =
     (case Project projectXml of
        None \<Rightarrow> []
      | Some proj \<Rightarrow> (case ItemGroup proj of None \<Rightarrow> [] | Some gs \<Rightarrow> gs))"

definition parseModernProjectFile :: "ProjectFileXml \<Rightarrow> string list \<Rightarrow> NuGetPackage list" where
  "parseModernProjectFile projectXml fws =
     concat (map (\<lambda>itemGroup.
        case PackageReference itemGroup of
          None \<Rightarrow> []
        | Some packageRefs \<Rightarrow> pushed (map (\<lambda>r. parsePackageReference r fws) packageRefs))
      (itemGroups projectXml))"

definition parseLegacyProjectFile :: "parser_io \<Rightarrow> ProjectFileXml \<Rightarrow> NuGetPackage list" where
  "parseLegacyProjectFile io projectXml =
     concat (map (\<lambda>itemGroup.
        (case PackageReference itemGroup of
           None \<Rightarrow> []
         | Some packageRefs \<Rightarrow>
             pushed (map (\<lambda>r. parsePackageReference r [''net48'']) packageRefs)) @
        (case Reference itemGroup of
           None \<Rightarrow> []
         | Some references \<Rightarrow> pushed (map (parseReference io) references)))
      (itemGroups projectXml))"

definition isModernProjectFormat :: "ProjectFileXml \<Rightarrow> bool" where
  "isModernProjectFormat projectXml =
     (case Project projectXml of
        None \<Rightarrow> False
      | Some proj \<Rightarrow>
          (case project_attrs proj of
             None \<Rightarrow> False
           | Some attrs \<Rightarrow> truthy_str (Sdk_attr attrs)))"

text \<open>
  \<open>isLegacyProjectFormat\<close> reads \<open>xml.Project.$.Sdk\<close> without testing \<open>$\<close>: on a project
  element with no attribute it throws a \<open>TypeError\<close>, here \<open>None\<close>.
\<close>

definition isLegacyProjectFormat :: "ProjectFileXml \<Rightarrow> bool option" where
  "isLegacyProjectFormat projectXml =
     (case Project projectXml of
        None \<Rightarrow> Some False
      | Some proj \<Rightarrow>
          (case project_attrs proj of
             None \<Rightarrow> None
           | Some attrs \<Rightarrow>
               Some (\<not> truthy_str (Sdk_attr attrs) \<and>
                     (truthy_str (xmlns_attr attrs) \<or> truthy_str (xmlns_xsi_attr attrs)))))"

text \<open>
  \<open>deduplicatePackages\<close>: the loop over the packages, with the set \<open>seen\<close> of keys and the
  array \<open>result\<close>. The key of a package is the string \<open>`${pkg.id}@${pkg.version}`\<close>.
\<close>

definition packageKey :: "NuGetPackage \<Rightarrow> string" where
  "packageKey pkg = pkg_id pkg @ ''@'' @ version pkg"

fun deduplicate_loop :: "NuGetPackage list \<Rightarrow> string set \<Rightarrow> NuGetPackage list \<Rightarrow> NuGetPackage list" where
  "deduplicate_loop [] seen result = result"
| "deduplicate_loop (pkg # rest) seen result =
     (let k = packageKey pkg in
      if k \<notin> seen then deduplicate_loop rest (insert k seen) (result @ [pkg])
      else deduplicate_loop rest seen result)"

definition deduplicatePackages :: "NuGetPackage list \<Rightarrow> NuGetPackage list" where
  "deduplicatePackages pkgs = deduplicate_loop pkgs {} []"

text \<open>The packages read from the project file itself, or the error thrown on the way.\<close>

definition projectFilePackages ::
  "parser_io \<Rightarrow> ProjectFileXml \<Rightarrow> ProjectValidationResult \<Rightarrow> thrown + NuGetPackage list" where
  "projectFilePackages io xml validationResult =
     (if isModernProjectFormat xml
      then Inr (parseModernProjectFile xml (frameworks validationResult))
      else
        (case isLegacyProjectFormat xml of
           None \<Rightarrow> Inl (OtherError ''TypeError'')
         | Some True \<Rightarrow> Inr (parseLegacyProjectFile io xml)
         | Some False \<Rightarrow>
             Inl (ProjectFileError (createProjectFileError UNSUPPORTED_TYPE validation False))))"

text \<open>The \<open>try\<close> block of \<open>parseProjectFile\<close>.\<close>

definition parseProjectFile_try :: "parser_io \<Rightarrow> string \<Rightarrow> thrown + NuGetPackage list" where
  "parseProjectFile_try io path =
     (case validateFileAccessWithDetails io path of
        Inl e \<Rightarrow> Inl e
      | Inr _ \<Rightarrow>
     (case readProjectFileWithValidation io path of
        Inl e \<Rightarrow> Inl e
      | Inr projectContent \<Rightarrow>
     (case parseXmlWithErrorHandling io projectContent path of
        Inl e \<Rightarrow> Inl e
      | Inr xml \<Rightarrow>
          let validationResult = validateProjectFile io path in
          (case projectFilePackages io xml validationResult of
             Inl e \<Rightarrow> Inl e
           | Inr pkgs \<Rightarrow>
               let configPackages =
                 (if projectType validationResult = dotnet_framework
                  then (case parsePackagesConfig io (packagesConfigPath io path) of
                          Inl configError \<Rightarrow> []
                        | Inr cfg \<Rightarrow> cfg)
                  else [])
               in Inr (deduplicatePackages (pkgs @ configPackages))))))"

definition parseProjectFile :: "parser_io \<Rightarrow> string \<Rightarrow> thrown + NuGetPackage list" where
  "parseProjectFile io path =
     (case parseProjectFile_try io path of
        Inr pkgs \<Rightarrow> Inr pkgs
      | Inl (ProjectFileError e) \<Rightarrow> Inl (ProjectFileError e)
      | Inl other \<Rightarrow> Inl (ProjectFileError (createProjectFileError CORRUPTED validation True)))"


section \<open>\<open>CacheManager\<close> (\<open>services/cacheManager.ts\<close>)\<close>

text \<open>
  Instants are milliseconds since the epoch, as \<open>Date.getTime\<close> gives them; each function
  that reads the clock takes the reading \<open>now\<close>. A TTL is a number of milliseconds.
\<close>

record 'a CacheEntry =
  data :: 'a
  timestamp_entry :: int
  expiresAt :: int
  key :: string

type_synonym 'a cache = "string \<rightharpoonup> 'a CacheEntry"

definition defaultTtl :: int where "defaultTtl = 30 * 60 * 1000"


text \<open>\<open>get\<close>: the value returned (\<open>None\<close> is \<open>null\<close>) and the map afterwards.\<close>

definition cache_get :: "int \<Rightarrow> string \<Rightarrow> 'a cache \<Rightarrow> 'a option \<times> 'a cache" where
  "cache_get now k c =
     (case c k of
        None \<Rightarrow> (None, c)
      | Some entry \<Rightarrow>
          if now > expiresAt entry then (None, c(k := None))
          else (Some (data entry), c))"

text \<open>\<open>set\<close>: \<open>ttl ?? this.defaultTtl\<close> replaces an absent TTL only.\<close>

definition cache_set :: "int \<Rightarrow> string \<Rightarrow> 'a \<Rightarrow> int option \<Rightarrow> 'a cache \<Rightarrow> 'a cache" where
  "cache_set now k d ttl c =
     (let timeToLive = (case ttl of None \<Rightarrow> defaultTtl | Some t \<Rightarrow> t);
          entry = \<lparr>data = d, timestamp_entry = now, expiresAt = now + timeToLive, key = k\<rparr>
      in c(k \<mapsto> entry))"

definition cache_delete :: "string \<Rightarrow> 'a cache \<Rightarrow> 'a cache" where
  "cache_delete k c = c(k := None)"

definition cache_has :: "int \<Rightarrow> string \<Rightarrow> 'a cache \<Rightarrow> bool \<times> 'a cache" where
  "cache_has now k c =
     (case c k of
        None \<Rightarrow> (False, c)
      | Some entry \<Rightarrow>
          if now > expiresAt entry then (False, c(k := None))
          else (True, c))"

subsection \<open>The persistent vulnerability cache\<close>

record VulnerabilityInfo =
  packageName :: string
  packageVersion :: string
  info_severity :: string
  info_title :: string
  info_description :: "string option"
  info_advisoryUrl :: "string option"

text \<open>
  A value the reader can meet under the property \<open>vulnerabilities\<close>, and so return:
  \<open>undefined\<close> (the property is absent), \<open>null\<close>, an array of vulnerability records, or
  any other value (a number, a string, an object, an array of something else).
\<close>

datatype js_value = Undefined | Null | ArrayOf "VulnerabilityInfo list" | OtherValue










section \<open>Concrete inputs\<close>

text \<open>Inputs at which the theorems below are evaluated.\<close>

definition finished :: "string \<Rightarrow> string \<Rightarrow> int \<Rightarrow> executor" where
  "finished out err c = (\<lambda>cmd args opts.
     Inr \<lparr>stdout = out, stderr = err, exitCode = c, command = cmd, executionTime = 0\<rparr>)"

definition no_json :: json_parse where
  "no_json = (\<lambda>s. Inl ''SyntaxError: Unexpected token'')"

definition table_options :: ListPackagesOptions where
  "table_options = \<lparr>includeTransitive = Some True, framework_opt = None, source_opt = None,
                     format = Some ''table''\<rparr>"

definition table_output :: string where
  "table_output =
     ''   Top-level Package   Requested   Resolved'' @ [CHR 0x0A] @
     ''   > Foo.Bar      1.0.0      1.0.1'' @ [CHR 0x0D, CHR 0x0A] @
     ''   Transitive Package   Resolved'' @ [CHR 0x0A] @
     ''   > Baz.Qux   2.0.0  ''"

definition direct_package :: "string \<Rightarrow> string \<Rightarrow> string \<Rightarrow> NuGetPackage" where
  "direct_package i v r =
     \<lparr>pkg_id = i, version = v, resolved = Some r, vulnerabilities = None,
      isTransitive = Some False, depth = Some 0, framework = None, source = None,
      isDevelopmentDependency = None\<rparr>"

definition manifest_package :: "string \<Rightarrow> string \<Rightarrow> NuGetPackage" where
  "manifest_package i v =
     \<lparr>pkg_id = i, version = v, resolved = Some v, vulnerabilities = None,
      isTransitive = Some False, depth = Some 0, framework = Some ''net8.0'',
      source = Some ''project-file'', isDevelopmentDependency = None\<rparr>"

definition reference_xml :: "string \<Rightarrow> string \<Rightarrow> PackageReferenceXml" where
  "reference_xml i v =
     \<lparr>pr_attrs = Some \<lparr>Include_attr = Some i, Version_attr = Some v\<rparr>, Version_child = None\<rparr>"

definition sdk_project :: "PackageReferenceXml list \<Rightarrow> ProjectFileXml" where
  "sdk_project refs =
     \<lparr>Project = Some
        \<lparr>project_attrs = Some \<lparr>Sdk_attr = Some ''Microsoft.NET.Sdk'', xmlns_attr = None,
                                xmlns_xsi_attr = None\<rparr>,
         ItemGroup = Some [\<lparr>PackageReference = Some refs, Reference = None\<rparr>]\<rparr>\<rparr>"

definition disk :: "ProjectFileXml \<Rightarrow> parser_io" where
  "disk xml =
     \<lparr>validateFileAccessWithDetails = (\<lambda>p. Inr ()),
      readProjectFileWithValidation = (\<lambda>p. Inr ''<Project Sdk=...>''),
      parseXmlWithErrorHandling = (\<lambda>c p. Inr xml),
      validateProjectFile = (\<lambda>p. \<lparr>isValid = True, errors = [], warnings = [],
                                    projectType = dotnet_5plus, frameworks = [''net8.0'']\<rparr>),
      parsePackagesConfig = (\<lambda>p. Inr []),
      packagesConfigPath = (\<lambda>p. ''packages.config''),
      match_packages_folder = (\<lambda>h. None),
      match_version = (\<lambda>h. None)\<rparr>"

definition services :: "executor \<Rightarrow> json_parse \<Rightarrow> parser_io \<Rightarrow> collaborators" where
  "services exec JSON_parse io =
     \<lparr>dotnetCliService_listPackages = listPackages exec JSON_parse,
      dotnetCliService_getVersion = Inl (OtherError ''Error: getVersion''),
      projectFileParser_parseProjectFile = parseProjectFile io,
      vulnerabilityScanner_scanProject = (\<lambda>p. Inl (OtherError ''Error: scanProject'')),
      validateProject = (\<lambda>p. Inl (OtherError ''Error: validateProject'')),
      new_Date = 0,
      path_basename = (\<lambda>p ext. p)\<rparr>"

definition failing :: "string \<Rightarrow> executor" where
  "failing err = (\<lambda>cmd args opts. Inl err)"

definition scan_options :: CommandExecutionOptions where
  "scan_options = \<lparr>cwd = None, timeout = None\<rparr>"

definition with_packages_config :: "parser_io \<Rightarrow> NuGetPackage list \<Rightarrow> parser_io" where
  "with_packages_config io cfg =
     io\<lparr>validateProjectFile := (\<lambda>p. \<lparr>isValid = True, errors = [], warnings = [],
                                       projectType = dotnet_framework, frameworks = [''net48'']\<rparr>),
        parsePackagesConfig := (\<lambda>p. Inr cfg)\<rparr>"

definition config_package :: "string \<Rightarrow> string \<Rightarrow> NuGetPackage" where
  "config_package i v =
     \<lparr>pkg_id = i, version = v, resolved = Some v, vulnerabilities = None,
      isTransitive = Some False, depth = Some 0, framework = Some ''net48'',
      source = Some ''packages-config'', isDevelopmentDependency = None\<rparr>"

definition net48_package :: "string \<Rightarrow> string \<Rightarrow> NuGetPackage" where
  "net48_package i v = (manifest_package i v)\<lparr>framework := Some ''net48''\<rparr>"

definition toolchain_package :: "string \<Rightarrow> string \<Rightarrow> string \<Rightarrow> NuGetPackage" where
  "toolchain_package i v fw =
     \<lparr>pkg_id = i, version = v, resolved = Some v, vulnerabilities = None,
      isTransitive = Some False, depth = Some 0, framework = Some fw,
      source = None, isDevelopmentDependency = None\<rparr>"

text \<open>A project that targets two frameworks, with the same reference under each.\<close>

definition two_frameworks :: ListOutputJson where
  "two_frameworks =
     \<lparr>projects = Some
        [\<lparr>frameworks_json = Some
           [\<lparr>framework_json = Some ''net6.0'',
             topLevelPackages_json = Some [\<lparr>id_json = Some ''Newtonsoft.Json'',
                                            requestedVersion = Some ''13.0.1'',
                                            resolvedVersion = Some ''13.0.1''\<rparr>],
             transitivePackages_json = None\<rparr>,
            \<lparr>framework_json = Some ''net8.0'',
             topLevelPackages_json = Some [\<lparr>id_json = Some ''Newtonsoft.Json'',
                                            requestedVersion = Some ''13.0.1'',
                                            resolvedVersion = Some ''13.0.1''\<rparr>],
             transitivePackages_json = None\<rparr>]\<rparr>]\<rparr>"

definition two_references :: ProjectFileXml where
  "two_references = sdk_project [reference_xml ''Foo.Bar'' ''1.0.0'', reference_xml ''Foo.Baz'' ''2.0.0'']"


definition advisory :: "string \<Rightarrow> Severity \<Rightarrow> Vulnerability" where
  "advisory i sev =
     \<lparr>vuln_id = i, severity = sev, title = ''Unknown vulnerability'', description = None,
      advisoryUrl = None, cve = Some [], publishedDate = None, lastModified = None\<rparr>"

definition transitive_package :: "string \<Rightarrow> string \<Rightarrow> NuGetPackage" where
  "transitive_package i v =
     \<lparr>pkg_id = i, version = v, resolved = Some v, vulnerabilities = None,
      isTransitive = Some True, depth = Some 1, framework = Some ''net8.0'',
      source = None, isDevelopmentDependency = None\<rparr>"

definition vulnerable_package :: "string \<Rightarrow> string \<Rightarrow> Vulnerability list \<Rightarrow> NuGetPackage" where
  "vulnerable_package i v vs =
     (toolchain_package i v ''net8.0'')\<lparr>vulnerabilities := Some vs\<rparr>"






section \<open>Severity normalisation is total and case-insensitive\<close>

text \<open>
  Claim C5. \<open>normalizeSeverity\<close> gives a severity for every argument, string or not
  (it is a total function with no raising branch). On strings it depends only on the
  lower-cased text: two strings that differ in letter case only get the same answer;
  every casing of \<open>critical\<close>, \<open>high\<close>, \<open>moderate\<close>, \<open>low\<close> gives the severity of
  that name and every casing of \<open>medium\<close> gives \<open>Moderate\<close>; a string whose lower-cased,
  trimmed text is none of the five words, the empty string, and a value that is not a
  string all give \<open>Low\<close>.
\<close>

theorem normalizeSeverity_total_case_insensitive:
  "(toLowerCase s = toLowerCase t \<longrightarrow>
      normalizeSeverity (Some s) = normalizeSeverity (Some t))
   \<and> (toLowerCase s = ''critical'' \<longrightarrow> normalizeSeverity (Some s) = Critical)
   \<and> (toLowerCase s = ''high'' \<longrightarrow> normalizeSeverity (Some s) = High)
   \<and> (toLowerCase s = ''moderate'' \<longrightarrow> normalizeSeverity (Some s) = Moderate)
   \<and> (toLowerCase s = ''medium'' \<longrightarrow> normalizeSeverity (Some s) = Moderate)
   \<and> (toLowerCase s = ''low'' \<longrightarrow> normalizeSeverity (Some s) = Low)
   \<and> (trim (toLowerCase s) \<notin> {''critical'', ''high'', ''moderate'', ''medium'', ''low''} \<longrightarrow>
        normalizeSeverity (Some s) = Low)
   \<and> normalizeSeverity (Some []) = Low
   \<and> normalizeSeverity None = Low"
proof -
  have empty_iff: "(u = []) = (toLowerCase u = [])" for u
    by (simp add: toLowerCase_def)
  have ci: "toLowerCase s = toLowerCase t \<Longrightarrow>
      normalizeSeverity (Some s) = normalizeSeverity (Some t)"
    using empty_iff [of s] empty_iff [of t] by (simp add: normalizeSeverity_def)
  have word: "normalizeSeverity (Some u) =
      (if w = ''critical'' then Critical else if w = ''high'' then High
       else if w = ''moderate'' \<or> w = ''medium'' then Moderate else Low)"
    if "toLowerCase u = w" "trim w = w" "w \<noteq> []" for u w
    using that empty_iff [of u] by (simp add: normalizeSeverity_def)
  have t1: "trim ''critical'' = ''critical''" and t2: "trim ''high'' = ''high''"
    and t3: "trim ''moderate'' = ''moderate''" and t4: "trim ''medium'' = ''medium''"
    and t5: "trim ''low'' = ''low''"
    by (simp_all add: trim_def isWhiteSpace_def)
  have other: "trim (toLowerCase s) \<notin> {''critical'', ''high'', ''moderate'', ''medium'', ''low''}
      \<Longrightarrow> normalizeSeverity (Some s) = Low"
    by (simp add: normalizeSeverity_def Let_def)
  show ?thesis
    using ci word [OF _ t1] word [OF _ t2] word [OF _ t3] word [OF _ t4] word [OF _ t5] other
    by (simp add: normalizeSeverity_def)
qed

theorem normalizeSeverity_witness:
  "toLowerCase ''HIGH'' = toLowerCase ''high'' \<and> toLowerCase ''HIGH'' = ''high''
   \<and> normalizeSeverity (Some ''HIGH'') = High \<and> normalizeSeverity (Some ''high'') = High
   \<and> toLowerCase ''Medium'' = ''medium'' \<and> normalizeSeverity (Some ''Medium'') = Moderate
   \<and> toLowerCase ''CRITICAL'' = ''critical'' \<and> normalizeSeverity (Some ''CRITICAL'') = Critical
   \<and> toLowerCase ''moderatE'' = ''moderate'' \<and> normalizeSeverity (Some ''moderatE'') = Moderate
   \<and> toLowerCase ''LoW'' = ''low'' \<and> normalizeSeverity (Some ''LoW'') = Low
   \<and> trim (toLowerCase ''Severe'') \<notin> {''critical'', ''high'', ''moderate'', ''medium'', ''low''}
   \<and> normalizeSeverity (Some ''Severe'') = Low"
proof -
  have l: "toLowerCase ''HIGH'' = ''high''" "toLowerCase ''high'' = ''high''"
    "toLowerCase ''Medium'' = ''medium''" "toLowerCase ''CRITICAL'' = ''critical''"
    "toLowerCase ''moderatE'' = ''moderate''" "toLowerCase ''LoW'' = ''low''"
    "trim (toLowerCase ''Severe'') = ''severe''"
    by (simp_all add: toLowerCase_def isUpperCase_def trim_def isWhiteSpace_def)
  show ?thesis
    using normalizeSeverity_total_case_insensitive [of "''HIGH''" "''high''"]
      normalizeSeverity_total_case_insensitive [of "''high''" "''high''"]
      normalizeSeverity_total_case_insensitive [of "''Medium''" "''medium''"]
      normalizeSeverity_total_case_insensitive [of "''CRITICAL''" "''critical''"]
      normalizeSeverity_total_case_insensitive [of "''moderatE''" "''moderate''"]
      normalizeSeverity_total_case_insensitive [of "''LoW''" "''low''"]
      normalizeSeverity_total_case_insensitive [of "''Severe''" "''severe''"]
    by (simp add: l)
qed


section \<open>Error codes\<close>

lemma error_codes_distinct:
  "PROJECT_NOT_FOUND \<noteq> SDK_NOT_FOUND" "PROJECT_NOT_FOUND \<noteq> PROJECT_INVALID"
  "PROJECT_NOT_FOUND \<noteq> PERMISSION_DENIED" "PROJECT_NOT_FOUND \<noteq> NETWORK_ERROR"
  "PROJECT_NOT_FOUND \<noteq> LIST_PACKAGES_FAILED" "PROJECT_NOT_FOUND \<noteq> TIMEOUT"
  "PROJECT_NOT_FOUND \<noteq> VULNERABILITY_SCAN_FAILED"
  by (simp_all add: PROJECT_NOT_FOUND_def SDK_NOT_FOUND_def PROJECT_INVALID_def
      PERMISSION_DENIED_def NETWORK_ERROR_def LIST_PACKAGES_FAILED_def TIMEOUT_def
      VULNERABILITY_SCAN_FAILED_def)

lemma handleListPackagesError_not_found:
  "code (handleListPackagesError r p) = PROJECT_NOT_FOUND \<Longrightarrow>
   \<not> recoverable (handleListPackagesError r p)"
  by (simp add: handleListPackagesError_def Let_def createDotNetError_def error_codes_distinct
      error_codes_distinct [symmetric] split: if_splits)

lemma listPackages_not_found_nonrecoverable:
  assumes "listPackages exec jp p opts = Inl (DotNetCliError e)" "code e = PROJECT_NOT_FOUND"
  shows "\<not> recoverable e"
  using assms handleListPackagesError_not_found
  by (auto simp: listPackages_def listPackages_try_def createDotNetError_def error_codes_distinct
      error_codes_distinct [symmetric] split: if_splits sum.splits caught.splits)


section \<open>The tabular parser marks every package direct\<close>

lemma parseTableLine_direct:
  "p \<in> set (parseTableLine l) \<Longrightarrow> isTransitive p = Some False \<and> depth p = Some 0"
  by (auto simp: parseTableLine_def Let_def split: if_splits list.splits)

lemma parseTableLine_prefix:
  "p \<in> set (parseTableLine l) \<Longrightarrow> startsWith (trim l) ''>''"
  by (auto simp: parseTableLine_def Let_def split: if_splits)

lemma listPackages_table:
  assumes "format opts \<noteq> Some ''json''" "listPackages exec jp p opts = Inr pkgs"
  shows "\<exists>r. exec ''dotnet'' (listPackagesArgs p opts) \<lparr>cwd = None, timeout = Some defaultTimeout\<rparr> = Inr r
    \<and> exitCode r = 0 \<and> pkgs = parseTableOutput (stdout r)"
  using assms
  by (auto simp: listPackages_def listPackages_try_def split: if_splits sum.splits caught.splits)

text \<open>
  Claim C10. Every package that \<open>parseTableOutput\<close> produces has \<open>isTransitive = false\<close> and
  \<open>depth = 0\<close>, and comes from a line of the output whose text, white space trimmed,
  starts with \<open>>\<close>. So whenever \<open>listPackages\<close> is asked for another format than JSON and
  returns, every package it returns is marked direct, whatever \<open>includeTransitive\<close> says.
\<close>

theorem parseTableOutput_all_direct:
  "(\<forall>p \<in> set (parseTableOutput out). isTransitive p = Some False \<and> depth p = Some 0)
   \<and> (\<forall>p \<in> set (parseTableOutput out).
        \<exists>l \<in> set (split_char (CHR 0x0A) out).
          startsWith (trim l) ''>'' \<and> p \<in> set (parseTableLine l))
   \<and> (format opts \<noteq> Some ''json'' \<and> listPackages exec jp path opts = Inr pkgs \<longrightarrow>
        (\<forall>p \<in> set pkgs. isTransitive p = Some False \<and> depth p = Some 0))"
proof -
  have a: "\<forall>p \<in> set (parseTableOutput o'). isTransitive p = Some False \<and> depth p = Some 0"
    for o'
    by (auto simp: parseTableOutput_def dest: parseTableLine_direct)
  have b: "\<forall>p \<in> set (parseTableOutput out).
        \<exists>l \<in> set (split_char (CHR 0x0A) out).
          startsWith (trim l) ''>'' \<and> p \<in> set (parseTableLine l)"
    by (auto simp: parseTableOutput_def dest: parseTableLine_prefix)
  have c: "\<forall>p \<in> set pkgs. isTransitive p = Some False \<and> depth p = Some 0"
    if "format opts \<noteq> Some ''json''" "listPackages exec jp path opts = Inr pkgs"
    using listPackages_table [OF that] a by blast
  from a b c show ?thesis by blast
qed

lemma table_output_parsed:
  "parseTableOutput table_output =
     [direct_package ''Foo.Bar'' ''1.0.0'' ''1.0.1'', direct_package ''Baz.Qux'' ''2.0.0'' ''2.0.0'']"
  by (simp add: table_output_def parseTableOutput_def parseTableLine_def trim_def
      isWhiteSpace_def at_index_def direct_package_def)

theorem parseTableOutput_all_direct_witness:
  "format table_options \<noteq> Some ''json''
   \<and> includeTransitive table_options = Some True
   \<and> listPackages (finished table_output [] 0) no_json ''App.csproj'' table_options =
       Inr [direct_package ''Foo.Bar'' ''1.0.0'' ''1.0.1'', direct_package ''Baz.Qux'' ''2.0.0'' ''2.0.0'']
   \<and> isTransitive (direct_package ''Foo.Bar'' ''1.0.0'' ''1.0.1'') = Some False
   \<and> depth (direct_package ''Foo.Bar'' ''1.0.0'' ''1.0.1'') = Some 0
   \<and> isTransitive (direct_package ''Baz.Qux'' ''2.0.0'' ''2.0.0'') = Some False
   \<and> depth (direct_package ''Baz.Qux'' ''2.0.0'' ''2.0.0'') = Some 0
   \<and> (\<exists>l \<in> set (split_char (CHR 0x0A) table_output).
         startsWith (trim l) ''>'' \<and>
         direct_package ''Foo.Bar'' ''1.0.0'' ''1.0.1'' \<in> set (parseTableLine l))
   \<and> (\<exists>l \<in> set (split_char (CHR 0x0A) table_output).
         startsWith (trim l) ''>'' \<and>
         direct_package ''Baz.Qux'' ''2.0.0'' ''2.0.0'' \<in> set (parseTableLine l))"
proof -
  let ?pkgs = "[direct_package ''Foo.Bar'' ''1.0.0'' ''1.0.1'',
                direct_package ''Baz.Qux'' ''2.0.0'' ''2.0.0'']"
  have f: "format table_options \<noteq> Some ''json''"
    "includeTransitive table_options = Some True"
    by (simp_all add: table_options_def)
  have l: "listPackages (finished table_output [] 0) no_json ''App.csproj'' table_options =
       Inr ?pkgs"
    by (simp add: listPackages_def listPackages_try_def finished_def table_options_def
        table_output_parsed)
  note t = parseTableOutput_all_direct [of table_output table_options
        "finished table_output [] 0" no_json "''App.csproj''" ?pkgs]
  have a: "\<forall>p \<in> set ?pkgs. isTransitive p = Some False \<and> depth p = Some 0"
    using t f l by blast
  have b: "\<forall>p \<in> set ?pkgs. \<exists>l \<in> set (split_char (CHR 0x0A) table_output).
          startsWith (trim l) ''>'' \<and> p \<in> set (parseTableLine l)"
    using t by (simp only: table_output_parsed) blast
  show ?thesis
    using f l a b by simp
qed


section \<open>A scan that exits non-zero: empty result or classified error\<close>

text \<open>
  Claim C4. Let the project path be not empty (otherwise no command runs) and let the
  scan command exit with a code other than 0. If the lower-cased text
  \<open>stderr + ' ' + stdout\<close> contains one of the three phrases that say that nothing was
  found, \<open>listVulnerablePackages\<close> returns the empty list; otherwise it throws a
  \<open>DotNetCliError\<close> whose code is one of project-not-found, network-error,
  permission-denied and vulnerability-scan-failed, and returns nothing.
\<close>

theorem listVulnerablePackages_nonzero_exit:
  assumes "path \<noteq> []"
    and "exec ''dotnet'' (scanArgs path) (scanExecOptions opts) = Inr r"
    and "exitCode r \<noteq> 0"
  shows "if includes_str (combinedOutput r) ''no vulnerable packages found'' \<or>
            includes_str (combinedOutput r) ''no vulnerabilities found'' \<or>
            includes_str (combinedOutput r) ''no packages with known vulnerabilities''
         then listVulnerablePackages exec pv path opts = Inr []
         else \<exists>e. listVulnerablePackages exec pv path opts = Inl (DotNetCliError e) \<and>
                  code e \<in> {PROJECT_NOT_FOUND, NETWORK_ERROR, PERMISSION_DENIED,
                             VULNERABILITY_SCAN_FAILED}"
  using assms
  by (simp add: listVulnerablePackages_def listVulnerablePackages_try_def
      handleVulnerabilityScanError_def Let_def createDotNetError_def)

lemma combinedOutput_nothing_found:
  "combinedOutput \<lparr>stdout = ''No vulnerable packages found.'', stderr = [], exitCode = 1,
     command = ''dotnet'', executionTime = 0\<rparr> = '' no vulnerable packages found.''"
  by (simp add: combinedOutput_def toLowerCase_def isUpperCase_def)

lemma combinedOutput_boom:
  "combinedOutput \<lparr>stdout = [], stderr = ''error: boom'', exitCode = 1,
     command = ''dotnet'', executionTime = 0\<rparr> = ''error: boom ''"
  by (simp add: combinedOutput_def toLowerCase_def isUpperCase_def)

theorem listVulnerablePackages_nonzero_exit_witness:
  "''App.csproj'' \<noteq> []
   \<and> finished ''No vulnerable packages found.'' [] 1 ''dotnet'' (scanArgs ''App.csproj'')
         (scanExecOptions scan_options) =
       Inr \<lparr>stdout = ''No vulnerable packages found.'', stderr = [], exitCode = 1,
             command = ''dotnet'', executionTime = 0\<rparr>
   \<and> includes_str '' no vulnerable packages found.'' ''no vulnerable packages found''
   \<and> listVulnerablePackages (finished ''No vulnerable packages found.'' [] 1) (\<lambda>s. Inr [])
         ''App.csproj'' scan_options = Inr []
   \<and> \<not> (includes_str ''error: boom '' ''no vulnerable packages found'' \<or>
          includes_str ''error: boom '' ''no vulnerabilities found'' \<or>
          includes_str ''error: boom '' ''no packages with known vulnerabilities'')
   \<and> (\<exists>e. listVulnerablePackages (finished [] ''error: boom'' 1) (\<lambda>s. Inr [])
              ''App.csproj'' scan_options = Inl (DotNetCliError e)
          \<and> code e \<in> {PROJECT_NOT_FOUND, NETWORK_ERROR, PERMISSION_DENIED,
                       VULNERABILITY_SCAN_FAILED})"
proof -
  have a: "finished out err 1 ''dotnet'' (scanArgs ''App.csproj'') (scanExecOptions scan_options) =
       Inr \<lparr>stdout = out, stderr = err, exitCode = 1, command = ''dotnet'', executionTime = 0\<rparr>"
    for out err
    by (simp add: finished_def)
  have i1: "includes_str '' no vulnerable packages found.'' ''no vulnerable packages found''"
    by simp
  have i2: "\<not> (includes_str ''error: boom '' ''no vulnerable packages found'' \<or>
            includes_str ''error: boom '' ''no vulnerabilities found'' \<or>
            includes_str ''error: boom '' ''no packages with known vulnerabilities'')"
    by simp
  show ?thesis
    using listVulnerablePackages_nonzero_exit [of "''App.csproj''"
        "finished ''No vulnerable packages found.'' [] 1" scan_options
        "\<lparr>stdout = ''No vulnerable packages found.'', stderr = [], exitCode = 1,
          command = ''dotnet'', executionTime = 0\<rparr>" "\<lambda>s. Inr []"]
      listVulnerablePackages_nonzero_exit [of "''App.csproj''"
        "finished [] ''error: boom'' 1" scan_options
        "\<lparr>stdout = [], stderr = ''error: boom'', exitCode = 1,
          command = ''dotnet'', executionTime = 0\<rparr>" "\<lambda>s. Inr []"]
      a i1 i2
    by (simp only: combinedOutput_nothing_found combinedOutput_boom i1 i2 simp_thms if_True
        if_False CommandResult.simps) simp
qed


section \<open>The resolver: fallback and propagation\<close>

lemma two_references_parsed:
  "parseProjectFile (disk two_references) ''App.csproj'' =
     Inr [manifest_package ''Foo.Bar'' ''1.0.0'', manifest_package ''Foo.Baz'' ''2.0.0'']"
  by (simp add: parseProjectFile_def parseProjectFile_try_def disk_def two_references_def
      sdk_project_def reference_xml_def projectFilePackages_def isModernProjectFormat_def
      parseModernProjectFile_def itemGroups_def pushed_def parsePackageReference_def
      at_index_def deduplicatePackages_def packageKey_def manifest_package_def)

lemma sdk_missing:
  "listPackages (failing ''Error: spawn dotnet ENOENT'') no_json ''App.csproj'' (json_options t) =
     Inl (DotNetCliError \<lparr>code = SDK_NOT_FOUND, category = system, recoverable = False\<rparr>)"
  by (simp add: listPackages_def listPackages_try_def failing_def isTimeoutError_def
      isCommandNotFoundError_def toLowerCase_def isUpperCase_def createDotNetError_def)

lemma project_missing:
  "listPackages (finished [] ''MSBUILD : error MSB1009: Project file does not exist.'' 1) no_json
      ''App.csproj'' (json_options t) =
     Inl (DotNetCliError \<lparr>code = PROJECT_NOT_FOUND, category = validation, recoverable = False\<rparr>)"
  by (simp add: listPackages_def listPackages_try_def finished_def handleListPackagesError_def
      combinedOutput_def toLowerCase_def isUpperCase_def createDotNetError_def)

text \<open>
  Claim C3. Let the provider's listing service be \<open>DotNetCliService.listPackages\<close>, and let
  the listing throw an error of code project-not-found. Then \<open>analyzeDependencies\<close>, and
  with it each entry point, throws this very error; the only call it has made to a
  service is the listing, so the project file parser was not called, and
  \<open>lastAnalysisMethod\<close> is as before. (An error of this code from \<open>listPackages\<close> always
  has \<open>recoverable = false\<close>.)
\<close>

theorem project_not_found_propagates:
  assumes "dotnetCliService_listPackages env = listPackages exec jp"
    and "listPackages exec jp path (json_options t) = Inl (DotNetCliError e)"
    and "code e = PROJECT_NOT_FOUND"
  shows "analyzeDependencies env st path v t =
           (Inl (DotNetCliError e),
            st\<lparr>calls := calls st @ [Call_listPackages path (json_options t)]\<rparr>)
         \<and> analysisResult env st path v t mode ht hv =
           (Inl (DotNetCliError e),
            st\<lparr>calls := calls st @ [Call_listPackages path (json_options t)]\<rparr>)"
  using assms listPackages_not_found_nonrecoverable [OF assms(2,3)]
  by (simp add: analysisResult_def analyzeDependencies_def Let_def log_call_def
      error_codes_distinct)

theorem project_not_found_propagates_witness:
  "dotnetCliService_listPackages
     (services (finished [] ''MSBUILD : error MSB1009: Project file does not exist.'' 1) no_json
        (disk two_references)) =
   listPackages (finished [] ''MSBUILD : error MSB1009: Project file does not exist.'' 1) no_json
   \<and> listPackages (finished [] ''MSBUILD : error MSB1009: Project file does not exist.'' 1) no_json
      ''App.csproj'' (json_options False) =
     Inl (DotNetCliError \<lparr>code = PROJECT_NOT_FOUND, category = validation, recoverable = False\<rparr>)
   \<and> code \<lparr>code = PROJECT_NOT_FOUND, category = validation, recoverable = False\<rparr> =
       PROJECT_NOT_FOUND
   \<and> projectFileParser_parseProjectFile
        (services (finished [] ''MSBUILD : error MSB1009: Project file does not exist.'' 1) no_json
          (disk two_references)) ''App.csproj'' =
       Inr [manifest_package ''Foo.Bar'' ''1.0.0'', manifest_package ''Foo.Baz'' ''2.0.0'']
   \<and> analyzeDependencies
        (services (finished [] ''MSBUILD : error MSB1009: Project file does not exist.'' 1) no_json
          (disk two_references)) initial_state ''App.csproj'' False False =
       (Inl (DotNetCliError \<lparr>code = PROJECT_NOT_FOUND, category = validation, recoverable = False\<rparr>),
        \<lparr>lastAnalysisMethod = dotnet_cli,
         calls = [Call_listPackages ''App.csproj'' (json_options False)]\<rparr>)
   \<and> getDependencies
        (services (finished [] ''MSBUILD : error MSB1009: Project file does not exist.'' 1) no_json
          (disk two_references)) initial_state ''App.csproj'' =
       (Inl (DotNetCliError \<lparr>code = PROJECT_NOT_FOUND, category = validation, recoverable = False\<rparr>),
        \<lparr>lastAnalysisMethod = dotnet_cli,
         calls = [Call_listPackages ''App.csproj'' (json_options False)]\<rparr>)"
proof -
  let ?env = "services (finished [] ''MSBUILD : error MSB1009: Project file does not exist.'' 1)
      no_json (disk two_references)"
  have s: "dotnetCliService_listPackages ?env =
     listPackages (finished [] ''MSBUILD : error MSB1009: Project file does not exist.'' 1) no_json"
    "projectFileParser_parseProjectFile ?env = parseProjectFile (disk two_references)"
    by (simp_all add: services_def)
  show ?thesis
    using project_not_found_propagates [OF s(1) project_missing [of False], of initial_state False
        Dependencies False False]
    by (simp add: s project_missing two_references_parsed initial_state_def getDependencies_def)
qed

text \<open>
  Claim C2. Let the listing throw a \<open>DotNetCliError\<close> of code sdk-not-found and let the
  project file parser return a list. Then \<open>analyzeDependencies\<close> returns that list and sets
  \<open>lastAnalysisMethod\<close> to \<open>project-file\<close>; the metadata built from the state afterwards
  has \<open>analysisMethod = project-file\<close>; and the analysis result of an entry point
  (\<open>getDependencies\<close>, \<open>getDependenciesWithVulnerabilities\<close>, \<open>getFullDependencyGraph\<close> are
  \<open>analysisResult\<close> at their constants) holds that list and that method.
\<close>

theorem sdk_not_found_falls_back:
  assumes "dotnetCliService_listPackages env path (json_options t) = Inl (DotNetCliError e)"
    and "code e = SDK_NOT_FOUND"
    and "projectFileParser_parseProjectFile env path = Inr pkgs"
  shows "\<exists>st'. analyzeDependencies env st path v t = (Inr pkgs, st')
           \<and> lastAnalysisMethod st' = project_file
           \<and> analysisMethod (createAnalysisMetadata env st' path m ht hv) = project_file
           \<and> (\<exists>res. analysisResult env st path v t mode ht hv = (Inr res, st')
                 \<and> packages res = pkgs
                 \<and> analysisMethod (analysisMetadata res) = project_file)"
  using assms
  by (simp add: analysisResult_def analyzeDependencies_def Let_def log_call_def
      attempt_fallback_def createAnalysisMetadata_def)

theorem sdk_not_found_falls_back_witness:
  "dotnetCliService_listPackages
     (services (failing ''Error: spawn dotnet ENOENT'') no_json (disk two_references))
     ''App.csproj'' (json_options False) =
     Inl (DotNetCliError \<lparr>code = SDK_NOT_FOUND, category = system, recoverable = False\<rparr>)
   \<and> code \<lparr>code = SDK_NOT_FOUND, category = system, recoverable = False\<rparr> = SDK_NOT_FOUND
   \<and> projectFileParser_parseProjectFile
       (services (failing ''Error: spawn dotnet ENOENT'') no_json (disk two_references))
       ''App.csproj'' =
       Inr [manifest_package ''Foo.Bar'' ''1.0.0'', manifest_package ''Foo.Baz'' ''2.0.0'']
   \<and> (\<exists>res st'.
        getDependencies
          (services (failing ''Error: spawn dotnet ENOENT'') no_json (disk two_references))
          initial_state ''App.csproj'' = (Inr res, st')
        \<and> packages res = [manifest_package ''Foo.Bar'' ''1.0.0'', manifest_package ''Foo.Baz'' ''2.0.0'']
        \<and> analysisMethod (analysisMetadata res) = project_file
        \<and> lastAnalysisMethod st' = project_file)"
proof -
  let ?env = "services (failing ''Error: spawn dotnet ENOENT'') no_json (disk two_references)"
  have s: "dotnetCliService_listPackages ?env =
      listPackages (failing ''Error: spawn dotnet ENOENT'') no_json"
    "projectFileParser_parseProjectFile ?env = parseProjectFile (disk two_references)"
    by (simp_all add: services_def)
  have l: "dotnetCliService_listPackages ?env ''App.csproj'' (json_options False) =
     Inl (DotNetCliError \<lparr>code = SDK_NOT_FOUND, category = system, recoverable = False\<rparr>)"
    by (simp only: s sdk_missing)
  have p: "projectFileParser_parseProjectFile ?env ''App.csproj'' =
       Inr [manifest_package ''Foo.Bar'' ''1.0.0'', manifest_package ''Foo.Baz'' ''2.0.0'']"
    by (simp only: s two_references_parsed)
  show ?thesis
    using sdk_not_found_falls_back [OF l _ p, of initial_state False dotnet_cli False False
        Dependencies]
      l p
    unfolding getDependencies_def by auto
qed


section \<open>Deduplication\<close>

lemma deduplicate_loop_distinct:
  "distinct (map packageKey res) \<Longrightarrow> packageKey ` set res \<subseteq> seen \<Longrightarrow>
   distinct (map packageKey (deduplicate_loop ps seen res))"
proof (induction ps arbitrary: seen res)
  case Nil
  then show ?case by simp
next
  case (Cons p ps)
  show ?case
  proof (cases "packageKey p \<in> seen")
    case True
    with Cons show ?thesis by simp
  next
    case False
    have "distinct (map packageKey (res @ [p]))"
      using Cons.prems False by auto
    moreover have "packageKey ` set (res @ [p]) \<subseteq> insert (packageKey p) seen"
      using Cons.prems by auto
    ultimately have "distinct (map packageKey
        (deduplicate_loop ps (insert (packageKey p) seen) (res @ [p])))"
      by (rule Cons.IH)
    with False show ?thesis by simp
  qed
qed

lemma deduplicate_loop_index:
  "deduplicate_loop ps seen res =
     res @ map (\<lambda>i. ps ! i)
       (filter (\<lambda>i. packageKey (ps ! i) \<notin> seen \<and>
                    (\<forall>j<i. packageKey (ps ! j) \<noteq> packageKey (ps ! i)))
          [0..<length ps])"
proof (induction ps arbitrary: seen res)
  case Nil
  then show ?case by simp
next
  case (Cons p ps)
  have upt: "[0..<length (p # ps)] = 0 # map Suc [0..<length ps]"
    by (simp add: upt_conv_Cons map_Suc_upt del: upt_Suc)
  have all_Suc: "(\<forall>j<Suc i. P j) = (P 0 \<and> (\<forall>j<i. P (Suc j)))" for P i
    by (metis less_Suc_eq_0_disj)
  show ?case
    unfolding upt
    by (auto simp: Cons.IH Let_def filter_map comp_def all_Suc
        intro!: filter_cong arg_cong [where f = "map _"])
qed

lemma distinct_keys_distinct_pairs:
  "distinct (map packageKey ps) \<Longrightarrow> distinct (map (\<lambda>p. (pkg_id p, version p)) ps)"
proof (induction ps)
  case Nil
  then show ?case by simp
next
  case (Cons p ps)
  have "(pkg_id p, version p) \<notin> set (map (\<lambda>p. (pkg_id p, version p)) ps)"
  proof
    assume "(pkg_id p, version p) \<in> set (map (\<lambda>p. (pkg_id p, version p)) ps)"
    then obtain q where q: "q \<in> set ps" "pkg_id q = pkg_id p" "version q = version p"
      by auto
    then have "packageKey p = packageKey q"
      by (simp add: packageKey_def)
    from this q(1) have "packageKey p \<in> packageKey ` set ps"
      by (rule image_eqI)
    with Cons.prems show False by simp
  qed
  with Cons show ?case by simp
qed

lemma parseProjectFile_try_deduplicated:
  assumes "parseProjectFile_try io path = Inr ps"
  shows "\<exists>qs. ps = deduplicatePackages qs"
proof -
  obtain u where 1: "validateFileAccessWithDetails io path = Inr u"
    using assms
    by (cases "validateFileAccessWithDetails io path") (simp_all add: parseProjectFile_try_def)
  obtain c where 2: "readProjectFileWithValidation io path = Inr c"
    using assms 1
    by (cases "readProjectFileWithValidation io path") (simp_all add: parseProjectFile_try_def)
  obtain x where 3: "parseXmlWithErrorHandling io c path = Inr x"
    using assms 1 2
    by (cases "parseXmlWithErrorHandling io c path") (simp_all add: parseProjectFile_try_def)
  obtain pk where 4: "projectFilePackages io x (validateProjectFile io path) = Inr pk"
    using assms 1 2 3
    by (cases "projectFilePackages io x (validateProjectFile io path)")
       (simp_all add: parseProjectFile_try_def Let_def)
  show ?thesis
    using assms 1 2 3 4 by (auto simp: parseProjectFile_try_def Let_def)
qed

lemma parseProjectFile_deduplicated:
  assumes "parseProjectFile io path = Inr ps"
  shows "\<exists>qs. ps = deduplicatePackages qs"
proof -
  have "parseProjectFile_try io path = Inr ps"
    using assms by (simp add: parseProjectFile_def split: sum.splits thrown.splits)
  then show ?thesis by (rule parseProjectFile_try_deduplicated)
qed

text \<open>
  Claim C1, as the code has it. The list that \<open>DotNetCliService.listPackages\<close> returns is
  not deduplicated: \<open>parseJsonOutput\<close> appends the packages of every framework of every
  project, so a project that targets two frameworks lists a package twice under the
  same id and version.
\<close>

theorem toolchain_list_keeps_duplicates:
  "listPackages (finished ''{...}'' [] 0) (\<lambda>s. Inr two_frameworks) ''App.csproj''
      (json_options False) =
     Inr [toolchain_package ''Newtonsoft.Json'' ''13.0.1'' ''net6.0'',
          toolchain_package ''Newtonsoft.Json'' ''13.0.1'' ''net8.0'']
   \<and> \<not> distinct (map (\<lambda>p. (pkg_id p, version p))
          [toolchain_package ''Newtonsoft.Json'' ''13.0.1'' ''net6.0'',
           toolchain_package ''Newtonsoft.Json'' ''13.0.1'' ''net8.0''])"
  by (simp add: listPackages_def listPackages_try_def finished_def json_options_def
      parseJsonOutput_def trim_def isWhiteSpace_def two_frameworks_def projectPackages_def
      frameworkPackages_def topLevelPackage_def toolchain_package_def)

text \<open>
  Claim C1, amended. Every list that \<open>ProjectFileParser.parseProjectFile\<close> returns has no
  two entries of the same id and version. \<open>deduplicatePackages\<close> returns a list whose keys
  \<open>id@version\<close> are pairwise different, and it keeps exactly the first occurrence of every
  key, in the order of its argument: the entry at index \<open>i\<close> stays if and only if no entry
  before it has the same key.
\<close>

theorem manifest_list_deduplicated:
  "(parseProjectFile io path = Inr ps \<longrightarrow> distinct (map (\<lambda>p. (pkg_id p, version p)) ps))
   \<and> distinct (map packageKey (deduplicatePackages qs))
   \<and> deduplicatePackages qs =
       map (\<lambda>i. qs ! i)
         (filter (\<lambda>i. \<forall>j<i. packageKey (qs ! j) \<noteq> packageKey (qs ! i)) [0..<length qs])"
proof -
  have d: "distinct (map packageKey (deduplicatePackages l))" for l
    unfolding deduplicatePackages_def by (rule deduplicate_loop_distinct) simp_all
  have "distinct (map (\<lambda>p. (pkg_id p, version p)) ps)" if "parseProjectFile io path = Inr ps"
    using parseProjectFile_deduplicated [OF that] d distinct_keys_distinct_pairs by blast
  moreover have "deduplicatePackages qs =
       map (\<lambda>i. qs ! i)
         (filter (\<lambda>i. \<forall>j<i. packageKey (qs ! j) \<noteq> packageKey (qs ! i)) [0..<length qs])"
    by (simp add: deduplicatePackages_def deduplicate_loop_index)
  ultimately show ?thesis using d by blast
qed

lemma packages_config_parsed:
  "parseProjectFile
     (with_packages_config (disk two_references)
        [config_package ''Foo.Baz'' ''2.0.0'', config_package ''Old.Lib'' ''0.9.0''])
     ''App.csproj'' =
   Inr [net48_package ''Foo.Bar'' ''1.0.0'', net48_package ''Foo.Baz'' ''2.0.0'',
        config_package ''Old.Lib'' ''0.9.0'']"
  by (simp add: parseProjectFile_def parseProjectFile_try_def with_packages_config_def disk_def
      two_references_def sdk_project_def reference_xml_def projectFilePackages_def
      isModernProjectFormat_def parseModernProjectFile_def itemGroups_def pushed_def
      parsePackageReference_def at_index_def deduplicatePackages_def packageKey_def
      net48_package_def manifest_package_def config_package_def)

theorem manifest_list_deduplicated_witness:
  "parseProjectFile
     (with_packages_config (disk two_references)
        [config_package ''Foo.Baz'' ''2.0.0'', config_package ''Old.Lib'' ''0.9.0''])
     ''App.csproj'' =
   Inr [net48_package ''Foo.Bar'' ''1.0.0'', net48_package ''Foo.Baz'' ''2.0.0'',
        config_package ''Old.Lib'' ''0.9.0'']
   \<and> distinct (map (\<lambda>p. (pkg_id p, version p))
        [net48_package ''Foo.Bar'' ''1.0.0'', net48_package ''Foo.Baz'' ''2.0.0'',
         config_package ''Old.Lib'' ''0.9.0''])"
  using manifest_list_deduplicated [of
      "with_packages_config (disk two_references)
         [config_package ''Foo.Baz'' ''2.0.0'', config_package ''Old.Lib'' ''0.9.0'']"
      "''App.csproj''"
      "[net48_package ''Foo.Bar'' ''1.0.0'', net48_package ''Foo.Baz'' ''2.0.0'',
        config_package ''Old.Lib'' ''0.9.0'']"]
    packages_config_parsed
  by simp

section \<open>Graph synthesis: when a link is guaranteed\<close>

lemma ceil_div_pos: "0 < a \<Longrightarrow> 0 < b \<Longrightarrow> 0 < ceil_div a b"
  by (simp add: ceil_div_def div_greater_zero_iff)

lemma fallbackSlice_first:
  assumes "ts \<noteq> []" "0 < n"
  shows "fallbackSlice mode ts n (0, d) \<noteq> []"
proof -
  have c: "0 < ceil_div (length ts) n"
    using assms by (simp add: ceil_div_pos)
  then have "0 < min (ceil_div (length ts) n) (length ts)"
    using assms by simp
  then have "[0 ..< min (ceil_div (length ts) n) (length ts)] =
      0 # [1 ..< min (ceil_div (length ts) n) (length ts)]"
    by (simp add: upt_conv_Cons)
  then show ?thesis
    using assms by (simp add: fallbackSlice_def at_index_def Let_def)
qed

lemma createFallbackLinks_nonempty:
  assumes "\<exists>p \<in> set ps. is_transitive p" "\<exists>p \<in> set ps. \<not> is_transitive p"
  shows "createFallbackLinks ps l mode \<noteq> []"
proof -
  obtain d ds where d: "filter (\<lambda>pkg. \<not> is_transitive pkg) ps = d # ds"
    using assms(2) by (cases "filter (\<lambda>pkg. \<not> is_transitive pkg) ps") (auto simp: filter_empty_conv)
  have t: "filter is_transitive ps \<noteq> []"
    using assms(1) by (auto simp: filter_empty_conv)
  have "fallbackSlice mode (filter is_transitive ps) (length (d # ds)) (0, d) \<noteq> []"
    using t by (intro fallbackSlice_first) simp_all
  then show ?thesis
    using t by (simp add: createFallbackLinks_def d enumerate_eq_zip upt_conv_Cons del: upt_Suc)
qed

lemma slice_take_drop:
  assumes "e \<le> length ts"
  shows "concat (map (\<lambda>j. case at_index ts j of None \<Rightarrow> [] | Some t \<Rightarrow> [f t]) [s..<e]) =
         map f (take (e - s) (drop s ts))"
proof -
  have a: "map (\<lambda>j. case at_index ts j of None \<Rightarrow> [] | Some t \<Rightarrow> [f t]) [s..<e] =
        map (\<lambda>j. [f (ts ! j)]) [s..<e]"
    using assms by (intro map_cong) (auto simp: at_index_def)
  have b: "concat (map (\<lambda>j. [g j]) xs) = map g xs" for g :: "nat \<Rightarrow> 'b" and xs
    by (induction xs) simp_all
  have c: "map (\<lambda>j. ts ! j) [s..<e] = take (e - s) (drop s ts)"
    using assms by (intro nth_equalityI) (auto simp: min_def)
  have "concat (map (\<lambda>j. case at_index ts j of None \<Rightarrow> [] | Some t \<Rightarrow> [f t]) [s..<e]) =
        map (\<lambda>j. f (ts ! j)) [s..<e]"
    unfolding a by (rule b)
  also have "\<dots> = map f (map (\<lambda>j. ts ! j) [s..<e])"
    by simp
  finally show ?thesis
    unfolding c .
qed

lemma fallbackSlice_slice:
  "fallbackSlice mode ts n (i, d) =
     map (directLink mode d) (take (ceil_div (length ts) n) (drop (i * ceil_div (length ts) n) ts))"
proof -
  let ?c = "ceil_div (length ts) n"
  have "fallbackSlice mode ts n (i, d) =
      map (directLink mode d) (take (min (i * ?c + ?c) (length ts) - i * ?c) (drop (i * ?c) ts))"
    unfolding fallbackSlice_def Let_def prod.case
    by (rule slice_take_drop) simp
  also have "take (min (i * ?c + ?c) (length ts) - i * ?c) (drop (i * ?c) ts) =
      take ?c (drop (i * ?c) ts)"
    by (cases "i * ?c + ?c \<le> length ts") (simp_all add: min_def)
  finally show ?thesis .
qed


text \<open>
  Claim C6, as the code has it. Two packages that are both direct get no link: both
  heuristic loops pair a package with a transitive one, and the fallback does nothing
  unless there is a direct and a transitive package. The graph of the manifest path,
  whose packages are all direct, has no link at all.
\<close>

theorem only_direct_packages_no_link:
  "length [manifest_package ''Foo.Bar'' ''1.0.0'', manifest_package ''Foo.Baz'' ''2.0.0''] > 1
   \<and> links (createGraphData
        [manifest_package ''Foo.Bar'' ''1.0.0'', manifest_package ''Foo.Baz'' ''2.0.0'']
        Dependencies) = []"
  by (simp add: createGraphData_def createSyntheticLinks_def createFallbackLinks_def
      heuristicDirectLinks_def manifest_package_def is_transitive_def)

text \<open>
  Claim C6, amended. For every package list that holds at least one transitive and at
  least one direct package, graph synthesis produces at least one link. When the two
  heuristic rules yield no link for such a list, the links are those of the even
  distribution: with \<open>c = ceil(T / D)\<close> for \<open>T\<close> transitive and \<open>D\<close> direct packages, the
  direct package of index \<open>i\<close> is linked to the transitive packages of indices \<open>i * c\<close> up
  to \<open>i * c + c\<close> (as far as the list goes), a slice that is not empty for the first direct
  package.
\<close>

theorem links_exist_with_both_kinds:
  "((\<exists>p \<in> set ps. is_transitive p) \<and> (\<exists>p \<in> set ps. \<not> is_transitive p) \<longrightarrow>
      links (createGraphData ps mode) \<noteq> [])
   \<and> (let D = filter (\<lambda>p. \<not> is_transitive p) ps;
           T = filter is_transitive ps;
           c = ceil_div (length T) (length D)
       in D \<noteq> [] \<and> T \<noteq> [] \<and> heuristicDirectLinks mode D T = [] \<and> relatedLinks mode T = [] \<longrightarrow>
          links (createGraphData ps mode) =
            concat (map (\<lambda>(i, d). map (directLink mode d) (take c (drop (i * c) T)))
                        (enumerate 0 D)))"
proof -
  let ?D = "filter (\<lambda>p. \<not> is_transitive p) ps"
  let ?T = "filter is_transitive ps"
  have len: "length ps > 1" if "?D \<noteq> []" "?T \<noteq> []"
  proof -
    have "0 < length ?T" "0 < length ?D"
      using that by simp_all
    then show ?thesis
      using sum_length_filter_compl [of is_transitive ps] by linarith
  qed
  have a: "links (createGraphData ps mode) \<noteq> []"
    if "\<exists>p \<in> set ps. is_transitive p" "\<exists>p \<in> set ps. \<not> is_transitive p"
  proof -
    have "?D \<noteq> []" "?T \<noteq> []"
      using that by (auto simp: filter_empty_conv)
    then show ?thesis
      using createFallbackLinks_nonempty [OF that] len
      by (auto simp: createGraphData_def createSyntheticLinks_def Let_def)
  qed
  have b: "links (createGraphData ps mode) =
      concat (map (\<lambda>(i, d). map (directLink mode d)
                     (take (ceil_div (length ?T) (length ?D))
                        (drop (i * ceil_div (length ?T) (length ?D)) ?T)))
                  (enumerate 0 ?D))"
    if "?D \<noteq> []" "?T \<noteq> []" "heuristicDirectLinks mode ?D ?T = []" "relatedLinks mode ?T = []"
  proof -
    have "fallbackSlice mode ?T (length ?D) =
        (\<lambda>(i, d). map (directLink mode d)
                     (take (ceil_div (length ?T) (length ?D))
                        (drop (i * ceil_div (length ?T) (length ?D)) ?T)))"
      by (rule ext) (simp add: fallbackSlice_slice split: prod.split)
    then show ?thesis
      using that len
      by (simp add: createGraphData_def createSyntheticLinks_def createFallbackLinks_def Let_def)
  qed
  show ?thesis
    using a b unfolding Let_def by blast
qed

lemma one_of_each_links:
  "links (createGraphData
      [toolchain_package ''Serilog'' ''3.0.0'' ''net8.0'',
       transitive_package ''Newtonsoft.Json'' ''13.0.1''] Full) =
   [directLink Full (toolchain_package ''Serilog'' ''3.0.0'' ''net8.0'')
      (transitive_package ''Newtonsoft.Json'' ''13.0.1'')]"
  by (simp add: createGraphData_def createSyntheticLinks_def createFallbackLinks_def
      heuristicDirectLinks_def shouldCreateLink_def hasCommonDependencyPattern_def
      toolchain_package_def transitive_package_def is_transitive_def at_index_def
      fallbackSlice_def ceil_div_def enumerate_eq_zip)

theorem links_exist_with_both_kinds_witness:
  "(\<exists>p \<in> set [toolchain_package ''Serilog'' ''3.0.0'' ''net8.0'',
                transitive_package ''Newtonsoft.Json'' ''13.0.1'']. is_transitive p)
   \<and> (\<exists>p \<in> set [toolchain_package ''Serilog'' ''3.0.0'' ''net8.0'',
                  transitive_package ''Newtonsoft.Json'' ''13.0.1'']. \<not> is_transitive p)
   \<and> heuristicDirectLinks Full [toolchain_package ''Serilog'' ''3.0.0'' ''net8.0'']
        [transitive_package ''Newtonsoft.Json'' ''13.0.1''] = []
   \<and> relatedLinks Full [transitive_package ''Newtonsoft.Json'' ''13.0.1''] = []
   \<and> links (createGraphData
        [toolchain_package ''Serilog'' ''3.0.0'' ''net8.0'',
         transitive_package ''Newtonsoft.Json'' ''13.0.1''] Full) \<noteq> []
   \<and> links (createGraphData
        [toolchain_package ''Serilog'' ''3.0.0'' ''net8.0'',
         transitive_package ''Newtonsoft.Json'' ''13.0.1''] Full) =
       [directLink Full (toolchain_package ''Serilog'' ''3.0.0'' ''net8.0'')
          (transitive_package ''Newtonsoft.Json'' ''13.0.1'')]"
proof -
  have k: "is_transitive (transitive_package ''Newtonsoft.Json'' ''13.0.1'')"
    "\<not> is_transitive (toolchain_package ''Serilog'' ''3.0.0'' ''net8.0'')"
    by (simp_all add: is_transitive_def transitive_package_def toolchain_package_def)
  have h: "heuristicDirectLinks Full [toolchain_package ''Serilog'' ''3.0.0'' ''net8.0'']
        [transitive_package ''Newtonsoft.Json'' ''13.0.1''] = []"
    by (simp add: heuristicDirectLinks_def shouldCreateLink_def hasCommonDependencyPattern_def
        toolchain_package_def transitive_package_def at_index_def)
  show ?thesis
    using links_exist_with_both_kinds [of
        "[toolchain_package ''Serilog'' ''3.0.0'' ''net8.0'',
          transitive_package ''Newtonsoft.Json'' ''13.0.1'']" Full]
      k h
    by (simp add: Let_def one_of_each_links ceil_div_def)
qed


section \<open>Merging vulnerability data\<close>

lemma assign_first_length: "length (assign_first k x ps) = length ps"
  by (induction ps) auto

lemma assign_first_ids: "map pkg_id (assign_first k x ps) = map pkg_id ps"
  by (induction ps) auto

lemma assign_first_frame:
  "map (\<lambda>p. p\<lparr>vulnerabilities := None\<rparr>) (assign_first k x ps) =
   map (\<lambda>p. p\<lparr>vulnerabilities := None\<rparr>) ps"
  by (induction ps) auto

lemma assign_first_nth:
  "i < length ps \<Longrightarrow>
   vulnerabilities (assign_first k x ps ! i) =
     (if pkg_id (ps ! i) = k \<and> (\<forall>j<i. pkg_id (ps ! j) \<noteq> k) then Some x
      else vulnerabilities (ps ! i))"
proof (induction ps arbitrary: i)
  case Nil
  then show ?case by simp
next
  case (Cons p ps)
  show ?case
  proof (cases i)
    case 0
    then show ?thesis by simp
  next
    case (Suc n)
    have all_Suc: "(\<forall>j<Suc n. P j) = (P 0 \<and> (\<forall>j<n. P (Suc j)))" for P
      by (metis less_Suc_eq_0_disj)
    from Suc Cons.prems have "n < length ps" by simp
    with Cons.IH [of n] Suc show ?thesis
      by (auto simp: all_Suc)
  qed
qed

lemma merge_length: "length (mergeVulnerabilityData ps vs) = length ps"
  unfolding mergeVulnerabilityData_def
  by (induction vs arbitrary: ps) (auto simp: merge_one_def assign_first_length split: option.splits)

lemma merge_ids: "map pkg_id (mergeVulnerabilityData ps vs) = map pkg_id ps"
  unfolding mergeVulnerabilityData_def
  by (induction vs arbitrary: ps) (auto simp: merge_one_def assign_first_ids split: option.splits)

lemma merge_frame:
  "map (\<lambda>p. p\<lparr>vulnerabilities := None\<rparr>) (mergeVulnerabilityData ps vs) =
   map (\<lambda>p. p\<lparr>vulnerabilities := None\<rparr>) ps"
  unfolding mergeVulnerabilityData_def
  by (induction vs arbitrary: ps) (auto simp: merge_one_def assign_first_frame split: option.splits)

lemma merge_snoc:
  "mergeVulnerabilityData ps (vs @ [v]) = merge_one (mergeVulnerabilityData ps vs) v"
  by (simp add: mergeVulnerabilityData_def)

lemma merge_nth:
  "i < length ps \<Longrightarrow>
   vulnerabilities (mergeVulnerabilityData ps vs ! i) =
     (if \<forall>j<i. pkg_id (ps ! j) \<noteq> pkg_id (ps ! i)
      then (case filter (\<lambda>v. pkg_id v = pkg_id (ps ! i) \<and> vulnerabilities v \<noteq> None) vs of
              [] \<Rightarrow> vulnerabilities (ps ! i)
            | w # ws \<Rightarrow> vulnerabilities (last (w # ws)))
      else vulnerabilities (ps ! i))"
proof (induction vs rule: rev_induct)
  case Nil
  then show ?case by (simp add: mergeVulnerabilityData_def)
next
  case (snoc v vs)
  let ?m = "mergeVulnerabilityData ps vs"
  let ?P = "\<lambda>v. pkg_id v = pkg_id (ps ! i) \<and> vulnerabilities v \<noteq> None"
  let ?first = "\<forall>j<i. pkg_id (ps ! j) \<noteq> pkg_id (ps ! i)"
  have ih: "vulnerabilities (?m ! i) =
     (if ?first
      then (case filter ?P vs of
              [] \<Rightarrow> vulnerabilities (ps ! i)
            | w # ws \<Rightarrow> vulnerabilities (last (w # ws)))
      else vulnerabilities (ps ! i))"
    using snoc by blast
  have ids: "pkg_id (?m ! j) = pkg_id (ps ! j)" if "j < length ps" for j
    using merge_ids [of ps vs] that by (metis merge_length nth_map)
  have len: "i < length ?m" using snoc.prems by (simp add: merge_length)
  show ?case
  proof (cases "vulnerabilities v")
    case None
    then have "filter ?P (vs @ [v]) = filter ?P vs" by simp
    moreover have "mergeVulnerabilityData ps (vs @ [v]) = ?m"
      using None by (simp add: merge_snoc merge_one_def)
    ultimately show ?thesis using ih by (simp only:)
  next
    case (Some x)
    have step: "vulnerabilities (mergeVulnerabilityData ps (vs @ [v]) ! i) =
        (if pkg_id (?m ! i) = pkg_id v \<and> (\<forall>j<i. pkg_id (?m ! j) \<noteq> pkg_id v) then Some x
         else vulnerabilities (?m ! i))"
      using Some assign_first_nth [OF len] by (simp add: merge_snoc merge_one_def)
    have same: "(pkg_id (?m ! i) = pkg_id v \<and> (\<forall>j<i. pkg_id (?m ! j) \<noteq> pkg_id v)) =
        (pkg_id (ps ! i) = pkg_id v \<and> (\<forall>j<i. pkg_id (ps ! j) \<noteq> pkg_id v))"
      using ids snoc.prems by auto
    show ?thesis
    proof (cases "pkg_id v = pkg_id (ps ! i)")
      case True
      then have f: "filter ?P (vs @ [v]) = filter ?P vs @ [v]"
        using Some by simp
      have l: "(case filter ?P vs @ [v] of [] \<Rightarrow> vulnerabilities (ps ! i)
                | w # ws \<Rightarrow> vulnerabilities (last (w # ws))) = Some x"
        using Some by (cases "filter ?P vs") simp_all
      show ?thesis
        unfolding step same f l using True ih by auto
    next
      case False
      then have f: "filter ?P (vs @ [v]) = filter ?P vs"
        by simp
      show ?thesis
        unfolding step same f using False ih by auto
    qed
  qed
qed


text \<open>
  Claim C7, as the code has it. The merge does not test whether the field is absent: a
  package that has a list of vulnerabilities gets the new one in its place, and of two
  entries of the scan with the same id the later one wins.
\<close>

theorem merge_overwrites_present_field:
  "vulnerabilities (vulnerable_package ''Foo.Bar'' ''1.0.0'' [advisory ''GHSA-1'' High]) =
     Some [advisory ''GHSA-1'' High]
   \<and> mergeVulnerabilityData
       [vulnerable_package ''Foo.Bar'' ''1.0.0'' [advisory ''GHSA-1'' High]]
       [vulnerable_package ''Foo.Bar'' ''1.0.0'' [advisory ''GHSA-2'' Low]] =
     [vulnerable_package ''Foo.Bar'' ''1.0.0'' [advisory ''GHSA-2'' Low]]
   \<and> [advisory ''GHSA-1'' High] \<noteq> [advisory ''GHSA-2'' Low]
   \<and> mergeVulnerabilityData
       [toolchain_package ''Foo.Bar'' ''1.0.0'' ''net8.0'']
       [vulnerable_package ''Foo.Bar'' ''1.0.0'' [advisory ''GHSA-1'' High],
        vulnerable_package ''Foo.Bar'' ''1.0.0'' [advisory ''GHSA-2'' Low]] =
     [vulnerable_package ''Foo.Bar'' ''1.0.0'' [advisory ''GHSA-2'' Low]]"
  by (simp add: mergeVulnerabilityData_def merge_one_def vulnerable_package_def
      toolchain_package_def advisory_def)

text \<open>
  Claim C7, amended. The merge keeps the length and the order of the package list and
  leaves every field other than \<open>vulnerabilities\<close> of every package as it was. It matches
  by \<open>id\<close> alone, and only the first package of an id: that package gets the list of the
  last entry of the scan that has this id and carries a list, whether or not the package
  had a list before; every other package keeps its field.
\<close>

theorem mergeVulnerabilityData_frame:
  "length (mergeVulnerabilityData ps vs) = length ps
   \<and> map (\<lambda>p. p\<lparr>vulnerabilities := None\<rparr>) (mergeVulnerabilityData ps vs) =
       map (\<lambda>p. p\<lparr>vulnerabilities := None\<rparr>) ps
   \<and> (i < length ps \<longrightarrow>
        vulnerabilities (mergeVulnerabilityData ps vs ! i) =
          (if \<forall>j<i. pkg_id (ps ! j) \<noteq> pkg_id (ps ! i)
           then (case filter (\<lambda>v. pkg_id v = pkg_id (ps ! i) \<and> vulnerabilities v \<noteq> None) vs of
                   [] \<Rightarrow> vulnerabilities (ps ! i)
                 | w # ws \<Rightarrow> vulnerabilities (last (w # ws)))
           else vulnerabilities (ps ! i)))"
  using merge_length merge_frame merge_nth by blast

theorem mergeVulnerabilityData_frame_witness:
  "(1::nat) < length [toolchain_package ''Foo.Bar'' ''1.0.0'' ''net6.0'',
                     toolchain_package ''Foo.Bar'' ''1.0.0'' ''net8.0'']
   \<and> vulnerabilities
        (mergeVulnerabilityData
           [toolchain_package ''Foo.Bar'' ''1.0.0'' ''net6.0'',
            toolchain_package ''Foo.Bar'' ''1.0.0'' ''net8.0'']
           [vulnerable_package ''Foo.Bar'' ''1.0.0'' [advisory ''GHSA-1'' High],
            vulnerable_package ''Other'' ''2.0.0'' [advisory ''GHSA-3'' Critical],
            vulnerable_package ''Foo.Bar'' ''1.0.0'' [advisory ''GHSA-2'' Low]] ! 0) =
       Some [advisory ''GHSA-2'' Low]
   \<and> vulnerabilities
        (mergeVulnerabilityData
           [toolchain_package ''Foo.Bar'' ''1.0.0'' ''net6.0'',
            toolchain_package ''Foo.Bar'' ''1.0.0'' ''net8.0'']
           [vulnerable_package ''Foo.Bar'' ''1.0.0'' [advisory ''GHSA-1'' High],
            vulnerable_package ''Other'' ''2.0.0'' [advisory ''GHSA-3'' Critical],
            vulnerable_package ''Foo.Bar'' ''1.0.0'' [advisory ''GHSA-2'' Low]] ! 1) = None"
  using mergeVulnerabilityData_frame [of
      "[toolchain_package ''Foo.Bar'' ''1.0.0'' ''net6.0'',
        toolchain_package ''Foo.Bar'' ''1.0.0'' ''net8.0'']"
      "[vulnerable_package ''Foo.Bar'' ''1.0.0'' [advisory ''GHSA-1'' High],
        vulnerable_package ''Other'' ''2.0.0'' [advisory ''GHSA-3'' Critical],
        vulnerable_package ''Foo.Bar'' ''1.0.0'' [advisory ''GHSA-2'' Low]]" 0]
    mergeVulnerabilityData_frame [of
      "[toolchain_package ''Foo.Bar'' ''1.0.0'' ''net6.0'',
        toolchain_package ''Foo.Bar'' ''1.0.0'' ''net8.0'']"
      "[vulnerable_package ''Foo.Bar'' ''1.0.0'' [advisory ''GHSA-1'' High],
        vulnerable_package ''Other'' ''2.0.0'' [advisory ''GHSA-3'' Critical],
        vulnerable_package ''Foo.Bar'' ''1.0.0'' [advisory ''GHSA-2'' Low]]" 1]
  by (simp add: vulnerable_package_def toolchain_package_def)


section \<open>The in-memory cache\<close>

text \<open>
  Claim C8, as the code has it. The TTL is any number: with a negative TTL the entry is
  expired as soon as it is stored, and the \<open>get\<close> that follows at once returns \<open>null\<close>.
\<close>

theorem negative_ttl_immediate_get_null:
  "fst (cache_get 1000 ''k'' (cache_set 1000 ''k'' (42::int) (Some (- 1)) Map.empty)) = None"
  by (simp add: cache_get_def cache_set_def Let_def)

text \<open>
  Claim C8, amended. For every key, value and TTL \<open>t \<ge> 0\<close>: \<open>set\<close> followed by \<open>get\<close> at the
  same instant returns the value, and so does a \<open>get\<close> at any instant up to \<open>t\<close> after the
  \<open>set\<close>. A \<open>get\<close> later than \<open>t\<close> after the \<open>set\<close> returns \<open>null\<close> and removes the entry, so
  that \<open>has\<close> answers false from then on. A \<open>set\<close> with no TTL behaves as one with a TTL
  of 30 minutes (\<open>30 * 60 * 1000\<close> milliseconds): the value is returned up to 30 minutes
  after the \<open>set\<close>; later the \<open>get\<close> returns \<open>null\<close> and removes the entry, and \<open>has\<close> answers
  false.
\<close>

theorem cache_roundtrip_and_expiry:
  "(0 \<le> t \<longrightarrow> fst (cache_get now k (cache_set now k v (Some t) c)) = Some v)
   \<and> fst (cache_get now k (cache_set now k v None c)) = Some v
   \<and> (now' \<le> now + t \<longrightarrow> fst (cache_get now' k (cache_set now k v (Some t) c)) = Some v)
   \<and> (now' > now + t \<longrightarrow>
        fst (cache_get now' k (cache_set now k v (Some t) c)) = None
        \<and> snd (cache_get now' k (cache_set now k v (Some t) c)) k = None
        \<and> fst (cache_has now'' k (snd (cache_get now' k (cache_set now k v (Some t) c)))) = False)
   \<and> (now' \<le> now + 30 * 60 * 1000 \<longrightarrow>
        fst (cache_get now' k (cache_set now k v None c)) = Some v)
   \<and> (now' > now + 30 * 60 * 1000 \<longrightarrow>
        fst (cache_get now' k (cache_set now k v None c)) = None
        \<and> snd (cache_get now' k (cache_set now k v None c)) k = None
        \<and> fst (cache_has now'' k (snd (cache_get now' k (cache_set now k v None c)))) = False)"
  by (simp add: cache_get_def cache_set_def cache_has_def defaultTtl_def Let_def)

theorem cache_roundtrip_and_expiry_witness:
  "(0::int) \<le> 5000
   \<and> fst (cache_get 1000 ''k'' (cache_set 1000 ''k'' (42::int) (Some 5000) Map.empty)) = Some 42
   \<and> (6000::int) \<le> 1000 + 5000
   \<and> fst (cache_get 6000 ''k'' (cache_set 1000 ''k'' (42::int) (Some 5000) Map.empty)) = Some 42
   \<and> (6001::int) > 1000 + 5000
   \<and> fst (cache_get 6001 ''k'' (cache_set 1000 ''k'' (42::int) (Some 5000) Map.empty)) = None
   \<and> fst (cache_has 6002 ''k''
        (snd (cache_get 6001 ''k'' (cache_set 1000 ''k'' (42::int) (Some 5000) Map.empty)))) = False
   \<and> (1801000::int) \<le> 1000 + 30 * 60 * 1000
   \<and> fst (cache_get 1801000 ''k'' (cache_set 1000 ''k'' (42::int) None Map.empty)) = Some 42
   \<and> (1801001::int) > 1000 + 30 * 60 * 1000
   \<and> fst (cache_get 1801001 ''k'' (cache_set 1000 ''k'' (42::int) None Map.empty)) = None
   \<and> snd (cache_get 1801001 ''k'' (cache_set 1000 ''k'' (42::int) None Map.empty)) ''k'' = None
   \<and> fst (cache_has 1801002 ''k''
        (snd (cache_get 1801001 ''k'' (cache_set 1000 ''k'' (42::int) None Map.empty)))) = False"
proof -
  have a: "fst (cache_get 1000 ''k'' (cache_set 1000 ''k'' (42::int) (Some 5000) Map.empty)) = Some 42
     \<and> fst (cache_get 6000 ''k'' (cache_set 1000 ''k'' (42::int) (Some 5000) Map.empty)) = Some 42"
    using cache_roundtrip_and_expiry [of 5000 1000 "''k''" "42::int" Map.empty 6000 6002]
    by simp
  have b: "fst (cache_get 6001 ''k'' (cache_set 1000 ''k'' (42::int) (Some 5000) Map.empty)) = None
     \<and> fst (cache_has 6002 ''k''
        (snd (cache_get 6001 ''k'' (cache_set 1000 ''k'' (42::int) (Some 5000) Map.empty)))) = False"
    using cache_roundtrip_and_expiry [of 5000 1000 "''k''" "42::int" Map.empty 6001 6002]
    by simp
  have c: "fst (cache_get 1801000 ''k'' (cache_set 1000 ''k'' (42::int) None Map.empty)) = Some 42"
    using cache_roundtrip_and_expiry [of 5000 1000 "''k''" "42::int" Map.empty 1801000 1801002]
    by simp
  have d: "fst (cache_get 1801001 ''k'' (cache_set 1000 ''k'' (42::int) None Map.empty)) = None
     \<and> snd (cache_get 1801001 ''k'' (cache_set 1000 ''k'' (42::int) None Map.empty)) ''k'' = None
     \<and> fst (cache_has 1801002 ''k''
        (snd (cache_get 1801001 ''k'' (cache_set 1000 ''k'' (42::int) None Map.empty)))) = False"
    using cache_roundtrip_and_expiry [of 5000 1000 "''k''" "42::int" Map.empty 1801001 1801002]
    by simp
  show ?thesis
    using a b c d by simp
qed


section \<open>The persistent vulnerability cache\<close>




end
